theory Spec2Isabelle
  imports Main
begin

section \<open>The posting script: data, environment and state\<close>

text \<open>
  The script \<^verbatim>\<open>script.py\<close> chains three external collaborators: the social client
  (instagrapi), the cloud storage service (Google Drive) and pandas reading a local
  schedule. Their answers are parameters of the model, gathered in the record
  \<open>env\<close>; what the script itself does with the answers is translated function by
  function. Every function takes the state of the run (\<open>world\<close>) and returns its
  result together with the new state. A result is \<open>Inl e\<close> when the Python raises
  \<open>e\<close> and \<open>Inr v\<close> when it returns \<open>v\<close>.
\<close>

type_synonym bytes = string

datatype exn =
    ValueError
  | IndexError
  | KeyError
  | FileNotFoundError
  | LibraryError string

type_synonym 'a res = "exn + 'a"

text \<open>The requests sent through the social client, in the order they are made.\<close>

datatype call =
    Relogin
  | Login string string
  | VideoUpload string string
  | VideoUploadToStory string
  | UserIdFromUsername string
  | UserMedias string nat
  | MediaLikers string
  | UserInfoByUsername string
  | MediaLike string

text \<open>
  The lines printed by the script, one constructor for each \<^verbatim>\<open>print\<close> of the source.
  The percentage of the download progress line is a floating point value and is left out.
\<close>

datatype line =
    SessionLoaded
  | ReloginFailed exn
  | LoggedInSaved
  | FolderNotFound string
  | FoundFolder string string
  | FileNotFound string string
  | FoundFile string string
  | DownloadProgress
  | Downloaded string string
  | UploadedPost string
  | UploadedStory
  | SelectedUsername string
  | UserId string string
  | NoPosts string
  | SelectedMedia string string
  | ErrorFetchingLikers exn
  | ProcessingUser string
  | LikedPost string
  | ErrorProcessingUser string exn

text \<open>
  The local file system is a flat map from paths to contents; \<open>calls\<close> is the trace of
  requests made through the social client, \<open>stdout\<close> the printed lines, \<open>draws\<close> the
  number of random choices made so far.
\<close>

record world =
  files :: "string \<rightharpoonup> bytes"
  stdout :: "line list"
  calls :: "call list"
  draws :: nat

text \<open>The instagrapi \<^verbatim>\<open>Client\<close> object, as far as the script touches it.\<close>

record client =
  username :: string
  password :: string
  settings :: bytes

record media =
  media_pk :: string
  thumbnail_url :: string

record liker =
  liker_username :: string

record user_info =
  user_pk :: string
  is_private :: bool
  media_count :: int

record drive_item =
  item_id :: string
  item_name :: string

text \<open>A row of the schedule as \<^verbatim>\<open>pd.read_csv\<close> delivers it, all cells still text.\<close>

record csv_row =
  raw_date_time :: string
  raw_file_path :: string
  raw_caption :: string

text \<open>
  A row of the data frame after line 110: the \<^verbatim>\<open>Date & Time\<close> cell is an instant in
  UTC, counted in nanoseconds since the epoch. Rows without a timestamp (NaT) are
  outside the model: every schedule entry has one.
\<close>

record schedule_row =
  date_time :: int
  file_path :: string
  caption :: string

text \<open>The selected row, a Series that also carries the \<^verbatim>\<open>Time Delta\<close> column of line 116.\<close>

record media_row = schedule_row +
  time_delta :: int

text \<open>
  The external collaborators. An answer of the social client may depend on the requests
  made before it (the first argument of each \<open>_o\<close> field) and on the client object.
  The two uploads may also write local files (instagrapi leaves a thumbnail beside the
  video), so they return the file system as they leave it.
\<close>

record env =
  getenv_username :: string
  getenv_password :: string
  now_utc :: int
  random_o :: "nat \<Rightarrow> nat"
  read_csv_o :: "bytes \<Rightarrow> csv_row list res"
  to_datetime_o :: "string \<Rightarrow> int res"
  credentials_o :: "unit res"
  drive_list_o :: "string \<Rightarrow> drive_item list res"
  drive_media_o :: "string \<Rightarrow> bytes res"
  decode_settings_o :: "bytes \<Rightarrow> bytes res"
  encode_settings_o :: "bytes \<Rightarrow> bytes"
  relogin_o :: "call list \<Rightarrow> client \<Rightarrow> bytes res"
  login_o :: "call list \<Rightarrow> client \<Rightarrow> string \<Rightarrow> string \<Rightarrow> bytes res"
  video_upload_o ::
    "call list \<Rightarrow> client \<Rightarrow> (string \<rightharpoonup> bytes) \<Rightarrow> string \<Rightarrow> string
      \<Rightarrow> unit res \<times> (string \<rightharpoonup> bytes)"
  video_upload_to_story_o ::
    "call list \<Rightarrow> client \<Rightarrow> (string \<rightharpoonup> bytes) \<Rightarrow> string
      \<Rightarrow> unit res \<times> (string \<rightharpoonup> bytes)"
  user_id_from_username_o :: "call list \<Rightarrow> client \<Rightarrow> string \<Rightarrow> string res"
  user_medias_o :: "call list \<Rightarrow> client \<Rightarrow> string \<Rightarrow> nat \<Rightarrow> media list res"
  media_likers_o :: "call list \<Rightarrow> client \<Rightarrow> string \<Rightarrow> liker list res"
  user_info_by_username_o :: "call list \<Rightarrow> client \<Rightarrow> string \<Rightarrow> user_info res"
  media_like_o :: "call list \<Rightarrow> client \<Rightarrow> string \<Rightarrow> bool res"

subsection \<open>Primitive effects\<close>

definition print :: "line \<Rightarrow> world \<Rightarrow> world" where
  "print l w = w\<lparr>stdout := stdout w @ [l]\<rparr>"

text \<open>A request through the social client: it is recorded, and the environment answers.\<close>

definition request :: "call \<Rightarrow> (call list \<Rightarrow> 'a res) \<Rightarrow> world \<Rightarrow> 'a res \<times> world" where
  "request c answer w = (answer (calls w), w\<lparr>calls := calls w @ [c]\<rparr>)"

definition path_exists :: "string \<Rightarrow> world \<Rightarrow> bool" where
  "path_exists p w = (files w p \<noteq> None)"

definition write_file :: "string \<Rightarrow> bytes \<Rightarrow> world \<Rightarrow> world" where
  "write_file p b w = w\<lparr>files := (files w)(p \<mapsto> b)\<rparr>"

definition append_file :: "string \<Rightarrow> bytes \<Rightarrow> world \<Rightarrow> world" where
  "append_file p b w =
     w\<lparr>files := (files w)(p \<mapsto> (case files w p of None \<Rightarrow> b | Some old \<Rightarrow> old @ b))\<rparr>"

text \<open>\<^verbatim>\<open>os.remove\<close> raises when the file is not there.\<close>

definition os_remove :: "string \<Rightarrow> world \<Rightarrow> unit res \<times> world" where
  "os_remove p w =
     (if path_exists p w then (Inr (), w\<lparr>files := (files w)(p := None)\<rparr>)
      else (Inl FileNotFoundError, w))"

text \<open>\<^verbatim>\<open>random.choice\<close>: IndexError on an empty sequence, else one of its elements.\<close>

definition random_choice :: "env \<Rightarrow> 'a list \<Rightarrow> world \<Rightarrow> 'a res \<times> world" where
  "random_choice e xs w =
     (if xs = [] then (Inl IndexError, w)
      else (Inr (xs ! (random_o e (draws w) mod length xs)), w\<lparr>draws := Suc (draws w)\<rparr>))"

section \<open>Session store: \<^verbatim>\<open>login_with_session\<close> (lines 12-39)\<close>

definition load_settings :: "env \<Rightarrow> client \<Rightarrow> string \<Rightarrow> world \<Rightarrow> client res \<times> world" where
  "load_settings e cl p w =
     (case files w p of
        None \<Rightarrow> (Inl FileNotFoundError, w)
      | Some b \<Rightarrow>
          (case decode_settings_o e b of
             Inl x \<Rightarrow> (Inl x, w)
           | Inr s \<Rightarrow> (Inr (cl\<lparr>settings := s\<rparr>), w)))"

definition dump_settings :: "env \<Rightarrow> client \<Rightarrow> string \<Rightarrow> world \<Rightarrow> world" where
  "dump_settings e cl p w = write_file p (encode_settings_o e (settings cl)) w"

text \<open>Lines 35-39, reached when there is no session file or the relogin raised.\<close>

definition fresh_login ::
  "env \<Rightarrow> client \<Rightarrow> string \<Rightarrow> string \<Rightarrow> string \<Rightarrow> world \<Rightarrow> client res \<times> world" where
  "fresh_login e cl u p session_file_path w =
     (case request (Login u p) (\<lambda>h. login_o e h cl u p) w of
        (Inl x, w1) \<Rightarrow> (Inl x, w1)
      | (Inr s, w1) \<Rightarrow>
          (let cl1 = cl\<lparr>settings := s\<rparr>
           in (Inr cl1, print LoggedInSaved (dump_settings e cl1 session_file_path w1))))"

definition login_with_session ::
  "env \<Rightarrow> client \<Rightarrow> string \<Rightarrow> string \<Rightarrow> string \<Rightarrow> world \<Rightarrow> client res \<times> world" where
  "login_with_session e cl0 u p session_file_path w =
     (let cl = cl0\<lparr>username := u, password := p\<rparr>
      in if path_exists session_file_path w then
           (case load_settings e cl session_file_path w of
              (Inl x, w1) \<Rightarrow> (Inl x, w1)
            | (Inr cl1, w1) \<Rightarrow>
                (case request Relogin (\<lambda>h. relogin_o e h cl1) w1 of
                   (Inr s, w2) \<Rightarrow> (Inr (cl1\<lparr>settings := s\<rparr>), print SessionLoaded w2)
                 | (Inl x, w2) \<Rightarrow>
                     fresh_login e cl1 u p session_file_path (print (ReloginFailed x) w2)))
         else fresh_login e cl u p session_file_path w)"

section \<open>Schedule selector: \<^verbatim>\<open>get_closest_media_row\<close> (lines 105-119)\<close>

text \<open>
  Line 110: \<^verbatim>\<open>pd.to_datetime\<close> converts the cells of the column in order and raises at
  the first one it cannot read.
\<close>

fun to_datetime_rows :: "env \<Rightarrow> csv_row list \<Rightarrow> schedule_row list res" where
  "to_datetime_rows e [] = Inr []"
| "to_datetime_rows e (r # rs) =
     (case to_datetime_o e (raw_date_time r) of
        Inl x \<Rightarrow> Inl x
      | Inr t \<Rightarrow>
          (case to_datetime_rows e rs of
             Inl x \<Rightarrow> Inl x
           | Inr rows \<Rightarrow>
               Inr (\<lparr>date_time = t, file_path = raw_file_path r, caption = raw_caption r\<rparr>
                    # rows)))"

text \<open>Lines 107-110: the data frame with its timestamps converted.\<close>

definition load_schedule :: "env \<Rightarrow> string \<Rightarrow> world \<Rightarrow> schedule_row list res" where
  "load_schedule e schedule_csv_path w =
     (case files w schedule_csv_path of
        None \<Rightarrow> Inl FileNotFoundError
      | Some b \<Rightarrow>
          (case read_csv_o e b of
             Inl x \<Rightarrow> Inl x
           | Inr raw \<Rightarrow> to_datetime_rows e raw))"

text \<open>
  \<^verbatim>\<open>Series.idxmin\<close>: a scan from the left that keeps the position of the smallest
  value seen and replaces it only by a strictly smaller one; on an empty series pandas
  raises ValueError. The frame has the default index, so labels are positions.
\<close>

fun argmin_scan :: "int list \<Rightarrow> nat \<Rightarrow> nat \<Rightarrow> int \<Rightarrow> nat" where
  "argmin_scan [] i best bv = best"
| "argmin_scan (x # xs) i best bv =
     (if x < bv then argmin_scan xs (Suc i) i x else argmin_scan xs (Suc i) best bv)"

definition idxmin :: "int list \<Rightarrow> nat res" where
  "idxmin xs = (case xs of [] \<Rightarrow> Inl ValueError | x # rest \<Rightarrow> Inr (argmin_scan rest 1 0 x))"

text \<open>\<^verbatim>\<open>df.loc[label]\<close>: KeyError when the label is not in the index.\<close>

definition loc :: "'a list \<Rightarrow> nat \<Rightarrow> 'a res" where
  "loc rows i = (if i < length rows then Inr (rows ! i) else Inl KeyError)"

definition with_time_delta :: "int \<Rightarrow> schedule_row \<Rightarrow> media_row" where
  "with_time_delta now r =
     \<lparr>date_time = date_time r, file_path = file_path r, caption = caption r,
      time_delta = \<bar>date_time r - now\<bar>\<rparr>"

definition get_closest_media_row :: "env \<Rightarrow> string \<Rightarrow> world \<Rightarrow> media_row res \<times> world" where
  "get_closest_media_row e schedule_csv_path w =
     (case load_schedule e schedule_csv_path w of
        Inl x \<Rightarrow> (Inl x, w)
      | Inr schedule_df \<Rightarrow>
          (let current_time_utc = now_utc e;
               df = map (with_time_delta current_time_utc) schedule_df
           in case idxmin (map time_delta df) of
                Inl x \<Rightarrow> (Inl x, w)
              | Inr i \<Rightarrow> (loc df i, w)))"

text \<open>
  \<^verbatim>\<open>Series.empty\<close> of a row: true when the row has no entries. A row of this frame
  has one entry for each of its four columns.
\<close>

definition row_labels :: "media_row \<Rightarrow> string list" where
  "row_labels r = [''Date & Time'', ''File Path'', ''Caption'', ''Time Delta'']"

definition series_empty :: "media_row \<Rightarrow> bool" where
  "series_empty r = (length (row_labels r) = 0)"

section \<open>Asset fetcher: \<^verbatim>\<open>download_file_from_drive\<close> (lines 42-86)\<close>

definition apostrophe :: string where
  "apostrophe = [CHR 0x27]"

definition folder_query :: "string \<Rightarrow> string" where
  "folder_query folder_name =
     ''name = '' @ apostrophe @ folder_name @ apostrophe @ '' and mimeType = '' @ apostrophe
       @ ''application/vnd.google-apps.folder'' @ apostrophe"

definition file_query :: "string \<Rightarrow> string \<Rightarrow> string" where
  "file_query file_name folder_id =
     ''name = '' @ apostrophe @ file_name @ apostrophe @ '' and '' @ apostrophe @ folder_id
       @ apostrophe @ '' in parents''"

definition DEFAULT_CHUNK_SIZE :: nat where
  "DEFAULT_CHUNK_SIZE = 100 * 1024 * 1024"

text \<open>
  Lines 80-83: each \<^verbatim>\<open>next_chunk\<close> appends the next piece of the remote content to the
  open file, and reports done when nothing is left to fetch. The first argument is what
  is still to fetch.
\<close>

function download_loop :: "string \<Rightarrow> bytes \<Rightarrow> world \<Rightarrow> world" where
  "download_loop fp remaining w =
     (let w1 = print DownloadProgress (append_file fp (take DEFAULT_CHUNK_SIZE remaining) w);
          rest = drop DEFAULT_CHUNK_SIZE remaining
      in if rest = [] then w1 else download_loop fp rest w1)"
  by pat_completeness auto
termination
  by (relation "measure (\<lambda>(fp, remaining, w). length remaining)")
     (auto simp: DEFAULT_CHUNK_SIZE_def)

declare download_loop.simps [simp del]

text \<open>
  Opening the file with mode \<^verbatim>\<open>wb\<close> empties it before the first chunk arrives; when
  the content cannot be fetched the exception leaves the empty file behind.
\<close>

definition download_file_from_drive ::
  "env \<Rightarrow> string \<Rightarrow> string \<Rightarrow> world \<Rightarrow> string option res \<times> world" where
  "download_file_from_drive e folder_name file_name w =
     (case drive_list_o e (folder_query folder_name) of
        Inl x \<Rightarrow> (Inl x, w)
      | Inr [] \<Rightarrow> (Inr None, print (FolderNotFound folder_name) w)
      | Inr (folder # _) \<Rightarrow>
          (let folder_id = item_id folder;
               w1 = print (FoundFolder folder_name folder_id) w
           in case drive_list_o e (file_query file_name folder_id) of
                Inl x \<Rightarrow> (Inl x, w1)
              | Inr [] \<Rightarrow> (Inr None, print (FileNotFound file_name folder_name) w1)
              | Inr (file # _) \<Rightarrow>
                  (let file_id = item_id file;
                       w2 = print (FoundFile file_name file_id) w1;
                       fp = file_name;
                       w3 = write_file fp [] w2
                   in case drive_media_o e file_id of
                        Inl x \<Rightarrow> (Inl x, w3)
                      | Inr body \<Rightarrow>
                          (Inr (Some fp),
                           print (Downloaded file_name fp) (download_loop fp body w3)))))"

section \<open>Publisher: \<^verbatim>\<open>upload_video_and_story\<close> (lines 89-102)\<close>

text \<open>An upload is a request whose answer also carries the local files as it leaves them.\<close>

definition upload_request ::
  "call \<Rightarrow> (call list \<Rightarrow> (string \<rightharpoonup> bytes) \<Rightarrow> unit res \<times> (string \<rightharpoonup> bytes)) \<Rightarrow> world
    \<Rightarrow> unit res \<times> world" where
  "upload_request c answer w =
     (case answer (calls w) (files w) of
        (r, fs) \<Rightarrow> (r, w\<lparr>files := fs, calls := calls w @ [c]\<rparr>))"

definition upload_video_and_story ::
  "env \<Rightarrow> client \<Rightarrow> string \<Rightarrow> string \<Rightarrow> world \<Rightarrow> unit res \<times> world" where
  "upload_video_and_story e cl video_path cap w =
     (case upload_request (VideoUpload video_path cap)
             (\<lambda>h fs. video_upload_o e h cl fs video_path cap) w of
        (Inl x, w1) \<Rightarrow> (Inl x, w1)
      | (Inr _, w1) \<Rightarrow>
          (let w2 = print (UploadedPost cap) w1
           in case upload_request (VideoUploadToStory video_path)
                     (\<lambda>h fs. video_upload_to_story_o e h cl fs video_path) w2 of
                (Inl x, w3) \<Rightarrow> (Inl x, w3)
              | (Inr _, w3) \<Rightarrow> (Inr (), print UploadedStory w3)))"

section \<open>Engagement sampler: \<^verbatim>\<open>get_random_likers_from_targets\<close> (lines 122-153)\<close>

text \<open>Lines 135-150, the body of the \<^verbatim>\<open>try\<close>.\<close>

definition sample_try :: "env \<Rightarrow> string list \<Rightarrow> client \<Rightarrow> world \<Rightarrow> string list res \<times> world" where
  "sample_try e target_usernames cl w =
     (case random_choice e target_usernames w of
        (Inl x, w1) \<Rightarrow> (Inl x, w1)
      | (Inr target_username, w1) \<Rightarrow>
          (let w2 = print (SelectedUsername target_username) w1
           in case request (UserIdFromUsername target_username)
                     (\<lambda>h. user_id_from_username_o e h cl target_username) w2 of
                (Inl x, w3) \<Rightarrow> (Inl x, w3)
              | (Inr user_id, w3) \<Rightarrow>
                  (let w4 = print (UserId target_username user_id) w3
                   in case request (UserMedias user_id 10)
                             (\<lambda>h. user_medias_o e h cl user_id 10) w4 of
                        (Inl x, w5) \<Rightarrow> (Inl x, w5)
                      | (Inr media_list, w5) \<Rightarrow>
                          if media_list = [] then (Inr [], print (NoPosts target_username) w5)
                          else
                            (case random_choice e media_list w5 of
                               (Inl x, w6) \<Rightarrow> (Inl x, w6)
                             | (Inr random_post, w6) \<Rightarrow>
                                 (let w7 = print (SelectedMedia (media_pk random_post)
                                                    (thumbnail_url random_post)) w6
                                  in case request (MediaLikers (media_pk random_post))
                                            (\<lambda>h. media_likers_o e h cl (media_pk random_post))
                                            w7 of
                                       (Inl x, w8) \<Rightarrow> (Inl x, w8)
                                     | (Inr likers, w8) \<Rightarrow>
                                         (Inr (take 10 (map liker_username likers)), w8))))))"

definition get_random_likers_from_targets ::
  "env \<Rightarrow> string list \<Rightarrow> client \<Rightarrow> world \<Rightarrow> string list res \<times> world" where
  "get_random_likers_from_targets e target_usernames cl w =
     (case sample_try e target_usernames cl w of
        (Inl x, w1) \<Rightarrow> (Inr [], print (ErrorFetchingLikers x) w1)
      | (Inr us, w1) \<Rightarrow> (Inr us, w1))"

section \<open>Engagement actor: \<^verbatim>\<open>process_usernames\<close> (lines 156-176)\<close>

text \<open>Lines 172-174, the loop over the posts.\<close>

fun like_all :: "env \<Rightarrow> client \<Rightarrow> media list \<Rightarrow> world \<Rightarrow> unit res \<times> world" where
  "like_all e cl [] w = (Inr (), w)"
| "like_all e cl (m # ms) w =
     (case request (MediaLike (media_pk m)) (\<lambda>h. media_like_o e h cl (media_pk m)) w of
        (Inl x, w1) \<Rightarrow> (Inl x, w1)
      | (Inr _, w1) \<Rightarrow> like_all e cl ms (print (LikedPost (media_pk m)) w1))"

text \<open>Lines 168-174, the body of the \<^verbatim>\<open>try\<close>.\<close>

definition process_try :: "env \<Rightarrow> client \<Rightarrow> string \<Rightarrow> world \<Rightarrow> unit res \<times> world" where
  "process_try e cl user w =
     (case request (UserInfoByUsername user) (\<lambda>h. user_info_by_username_o e h cl user) w of
        (Inl x, w1) \<Rightarrow> (Inl x, w1)
      | (Inr info, w1) \<Rightarrow>
          if \<not> is_private info \<and> media_count info > 4 then
            (let w2 = print (ProcessingUser user) w1
             in case request (UserMedias (user_pk info) 4)
                       (\<lambda>h. user_medias_o e h cl (user_pk info) 4) w2 of
                  (Inl x, w3) \<Rightarrow> (Inl x, w3)
                | (Inr media_list, w3) \<Rightarrow> like_all e cl media_list w3)
          else (Inr (), w1))"

text \<open>Lines 167-176, one turn of the loop over the users.\<close>

definition process_user :: "env \<Rightarrow> client \<Rightarrow> string \<Rightarrow> world \<Rightarrow> unit res \<times> world" where
  "process_user e cl user w =
     (case process_try e cl user w of
        (Inl x, w1) \<Rightarrow> (Inr (), print (ErrorProcessingUser user x) w1)
      | (Inr _, w1) \<Rightarrow> (Inr (), w1))"

fun process_usernames :: "env \<Rightarrow> string list \<Rightarrow> client \<Rightarrow> world \<Rightarrow> unit res \<times> world" where
  "process_usernames e [] cl w = (Inr (), w)"
| "process_usernames e (user # rest) cl w =
     (case process_user e cl user w of
        (Inl x, w1) \<Rightarrow> (Inl x, w1)
      | (Inr _, w1) \<Rightarrow> process_usernames e rest cl w1)"

section \<open>The main run (lines 180-220)\<close>

definition SESSION_FILE_PATH :: string where
  "SESSION_FILE_PATH = ''insta_session.json''"

definition new_client :: client where
  "new_client = \<lparr>username = [], password = [], settings = []\<rparr>"

definition target_usernames :: "string list" where
  "target_usernames =
     [''howimetyourmotherthefanpage'', ''itstedntracy'', ''himymfeeds'', ''himymaddiict'',
      ''friendsadiction'']"

text \<open>Lines 209-212: the local files are removed.\<close>

definition remove_local_files :: "string \<Rightarrow> world \<Rightarrow> unit res \<times> world" where
  "remove_local_files media_path w =
     (case os_remove media_path w of
        (Inl x, w1) \<Rightarrow> (Inl x, w1)
      | (Inr _, w1) \<Rightarrow>
          (let jpg_file_path = media_path @ ''.jpg''
           in if path_exists jpg_file_path w1 then os_remove jpg_file_path w1
              else (Inr (), w1)))"

text \<open>Lines 214-220: the engagement pass.\<close>

definition engagement_pass :: "env \<Rightarrow> client \<Rightarrow> world \<Rightarrow> unit res \<times> world" where
  "engagement_pass e instagram_client w =
     (case get_random_likers_from_targets e target_usernames instagram_client w of
        (Inl x, w1) \<Rightarrow> (Inl x, w1)
      | (Inr usernames, w1) \<Rightarrow>
          if usernames \<noteq> [] then
            (case login_with_session e new_client (getenv_username e) (getenv_password e)
                    SESSION_FILE_PATH w1 of
               (Inl x, w2) \<Rightarrow> (Inl x, w2)
             | (Inr cl, w2) \<Rightarrow> process_usernames e usernames cl w2)
          else (Inr (), w1))"

text \<open>Lines 208-220, entered when the download returned a path that is not empty.\<close>

definition publish_and_engage ::
  "env \<Rightarrow> client \<Rightarrow> string \<Rightarrow> string \<Rightarrow> world \<Rightarrow> unit res \<times> world" where
  "publish_and_engage e instagram_client media_path cap w =
     (case upload_video_and_story e instagram_client media_path cap w of
        (Inl x, w1) \<Rightarrow> (Inl x, w1)
      | (Inr _, w1) \<Rightarrow>
          (case remove_local_files media_path w1 of
             (Inl x, w2) \<Rightarrow> (Inl x, w2)
           | (Inr _, w2) \<Rightarrow> engagement_pass e instagram_client w2))"

text \<open>
  In \<open>main\<close>, \<^verbatim>\<open>if media_path:\<close> is false for \<^verbatim>\<open>None\<close> and for the empty string.
\<close>

definition main :: "env \<Rightarrow> world \<Rightarrow> unit res \<times> world" where
  "main e w =
     (case login_with_session e new_client (getenv_username e) (getenv_password e)
             SESSION_FILE_PATH w of
        (Inl x, w1) \<Rightarrow> (Inl x, w1)
      | (Inr instagram_client, w1) \<Rightarrow>
          (case credentials_o e of
             Inl x \<Rightarrow> (Inl x, w1)
           | Inr _ \<Rightarrow>
               (case get_closest_media_row e ''media_schedule.csv'' w1 of
                  (Inl x, w2) \<Rightarrow> (Inl x, w2)
                | (Inr media_row, w2) \<Rightarrow>
                    if \<not> series_empty media_row then
                      (case download_file_from_drive e ''english_skills_101''
                              (file_path media_row) w2 of
                         (Inl x, w3) \<Rightarrow> (Inl x, w3)
                       | (Inr None, w3) \<Rightarrow> (Inr (), w3)
                       | (Inr (Some media_path), w3) \<Rightarrow>
                           if media_path \<noteq> [] then
                             publish_and_engage e instagram_client media_path
                               (caption media_row) w3
                           else (Inr (), w3))
                    else (Inr (), w2))))"

section \<open>Notions used in the statements\<close>

fun is_like :: "call \<Rightarrow> bool" where
  "is_like (MediaLike _) = True"
| "is_like _ = False"

fun is_user_info :: "call \<Rightarrow> bool" where
  "is_user_info (UserInfoByUsername _) = True"
| "is_user_info _ = False"

fun is_sampler_call :: "call \<Rightarrow> bool" where
  "is_sampler_call (UserIdFromUsername _) = True"
| "is_sampler_call (UserMedias _ _) = True"
| "is_sampler_call (MediaLikers _) = True"
| "is_sampler_call _ = False"

text \<open>The requests made since the trace was \<open>h\<close>.\<close>

definition calls_since :: "call list \<Rightarrow> world \<Rightarrow> call list" where
  "calls_since h w = drop (length h) (calls w)"

text \<open>
  The contract of \<^verbatim>\<open>user_medias\<close> that the script relies on: asked for a positive
  \<^verbatim>\<open>amount\<close>, the client returns no more posts than that.
\<close>

definition honours_amount :: "env \<Rightarrow> bool" where
  "honours_amount e =
     (\<forall>h cl uid n ms. 0 < n \<longrightarrow> user_medias_o e h cl uid n = Inr ms \<longrightarrow> length ms \<le> n)"

section \<open>A concrete environment\<close>

definition demo_csv :: "csv_row list" where
  "demo_csv =
     [\<lparr>raw_date_time = ''1970-01-01 00:00:00.000000900'', raw_file_path = ''a.mp4'',
       raw_caption = ''hello''\<rparr>,
      \<lparr>raw_date_time = ''1970-01-01 00:00:00.000001100'', raw_file_path = ''b.mp4'',
       raw_caption = ''again''\<rparr>,
      \<lparr>raw_date_time = ''1970-01-01 00:00:00.000005000'', raw_file_path = ''c.mp4'',
       raw_caption = ''later''\<rparr>]"


definition demo_medias :: "media list" where
  "demo_medias =
     [\<lparr>media_pk = ''m1'', thumbnail_url = ''u1''\<rparr>, \<lparr>media_pk = ''m2'', thumbnail_url = ''u2''\<rparr>,
      \<lparr>media_pk = ''m3'', thumbnail_url = ''u3''\<rparr>, \<lparr>media_pk = ''m4'', thumbnail_url = ''u4''\<rparr>,
      \<lparr>media_pk = ''m5'', thumbnail_url = ''u5''\<rparr>]"

definition demo_likers :: "liker list" where
  "demo_likers =
     map (\<lambda>n. \<lparr>liker_username = n\<rparr>)
       [''l01'', ''l02'', ''l03'', ''l04'', ''l05'', ''l06'', ''l07'', ''l08'', ''l09'',
        ''l10'', ''l11'', ''l12'']"

definition demo_user_info :: "string \<Rightarrow> user_info res" where
  "demo_user_info u =
     (if u = ''private'' then Inr \<lparr>user_pk = ''7'', is_private = True, media_count = 20\<rparr>
      else if u = ''quiet'' then Inr \<lparr>user_pk = ''8'', is_private = False, media_count = 4\<rparr>
      else if u = ''ghost'' then Inl (LibraryError ''UserNotFound'')
      else Inr \<lparr>user_pk = ''9'', is_private = False, media_count = 7\<rparr>)"

definition demo_drive_list :: "string \<Rightarrow> drive_item list res" where
  "demo_drive_list q =
     (if q = folder_query ''english_skills_101''
      then Inr [\<lparr>item_id = ''F1'', item_name = ''english_skills_101''\<rparr>]
      else if q = file_query ''a.mp4'' ''F1''
      then Inr [\<lparr>item_id = ''V1'', item_name = ''a.mp4''\<rparr>]
      else Inr [])"

definition demo_env :: env where
  "demo_env =
     \<lparr>getenv_username = ''acct'', getenv_password = ''secret'', now_utc = 1000,
      random_o = (\<lambda>n. n),
      read_csv_o = (\<lambda>b. Inr demo_csv),
      to_datetime_o =
        (\<lambda>s. case map_of [(''1970-01-01 00:00:00.000000900'', 900),
                           (''1970-01-01 00:00:00.000001100'', 1100),
                           (''1970-01-01 00:00:00.000005000'', 5000)] s of
                None \<Rightarrow> Inl ValueError
              | Some t \<Rightarrow> Inr t),
      credentials_o = Inr (),
      drive_list_o = demo_drive_list,
      drive_media_o = (\<lambda>i. if i = ''V1'' then Inr ''video-bytes'' else Inl (LibraryError ''404'')),
      decode_settings_o = Inr,
      encode_settings_o = (\<lambda>s. s),
      relogin_o = (\<lambda>h cl. Inr (settings cl)),
      login_o = (\<lambda>h cl u p. Inr ''fresh''),
      video_upload_o = (\<lambda>h cl fs p c. (Inr (), fs(p @ ''.jpg'' \<mapsto> ''thumb''))),
      video_upload_to_story_o = (\<lambda>h cl fs p. (Inr (), fs)),
      user_id_from_username_o = (\<lambda>h cl u. Inr ''42''),
      user_medias_o = (\<lambda>h cl uid n. Inr (take n demo_medias)),
      media_likers_o = (\<lambda>h cl pk. Inr demo_likers),
      user_info_by_username_o = (\<lambda>h cl u. demo_user_info u),
      media_like_o = (\<lambda>h cl pk. Inr True)\<rparr>"

definition demo_world :: world where
  "demo_world =
     \<lparr>files = [''media_schedule.csv'' \<mapsto> ''schedule'', ''insta_session.json'' \<mapsto> ''stored''],
      stdout = [], calls = [], draws = 0\<rparr>"

definition demo_client :: client where
  "demo_client = \<lparr>username = ''acct'', password = ''secret'', settings = ''stored''\<rparr>"

section \<open>The storage service\<close>



















text \<open>A session file that \<^verbatim>\<open>load_settings\<close> cannot read.\<close>

definition corrupt_env :: env where
  "corrupt_env = demo_env\<lparr>decode_settings_o := (\<lambda>b. Inl (LibraryError ''JSONDecodeError''))\<rparr>"

section \<open>Schedule selector: the closest row\<close>



lemma time_delta_with [simp]: "time_delta (with_time_delta now r) = \<bar>date_time r - now\<bar>"
  by (simp add: with_time_delta_def)




text \<open>
  C1. A schedule without rows: \<open>idxmin\<close> of the empty column raises ValueError, so the
  selector returns nothing that the caller could test, and the run ends with the
  exception right after logging in.
\<close>

lemma get_closest_media_row_no_rows:
  "load_schedule e p w = Inr [] \<Longrightarrow> get_closest_media_row e p w = (Inl ValueError, w)"
  by (simp add: get_closest_media_row_def idxmin_def)

theorem empty_schedule_raises_value_error:
  "load_schedule (demo_env\<lparr>read_csv_o := (\<lambda>b. Inr [])\<rparr>) ''media_schedule.csv'' demo_world = Inr []
   \<and> get_closest_media_row (demo_env\<lparr>read_csv_o := (\<lambda>b. Inr [])\<rparr>) ''media_schedule.csv''
        demo_world = (Inl ValueError, demo_world)
   \<and> fst (main (demo_env\<lparr>read_csv_o := (\<lambda>b. Inr [])\<rparr>) demo_world) = Inl ValueError
   \<and> calls (snd (main (demo_env\<lparr>read_csv_o := (\<lambda>b. Inr [])\<rparr>) demo_world)) = [Relogin]"
proof -
  let ?e = "demo_env\<lparr>read_csv_o := (\<lambda>b. Inr [])\<rparr>"
  have l: "load_schedule ?e ''media_schedule.csv'' demo_world = Inr []"
    by (simp add: load_schedule_def demo_env_def demo_world_def)
  have u: "getenv_username demo_env = ''acct''" "getenv_password demo_env = ''secret''"
    by (simp_all add: demo_env_def)
  have login: "login_with_session ?e new_client ''acct'' ''secret'' SESSION_FILE_PATH demo_world
      = (Inr demo_client, print SessionLoaded (demo_world\<lparr>calls := [Relogin]\<rparr>))"
    by (simp add: login_with_session_def path_exists_def load_settings_def request_def
        SESSION_FILE_PATH_def demo_env_def demo_world_def new_client_def demo_client_def Let_def)
  have l2: "load_schedule ?e ''media_schedule.csv''
      (print SessionLoaded (demo_world\<lparr>calls := [Relogin]\<rparr>)) = Inr []"
    by (simp add: load_schedule_def demo_env_def demo_world_def print_def)
  have cred: "credentials_o ?e = Inr ()" by (simp add: demo_env_def)
  have m: "main ?e demo_world = (Inl ValueError, print SessionLoaded (demo_world\<lparr>calls := [Relogin]\<rparr>))"
    by (simp add: main_def u login cred get_closest_media_row_no_rows [OF l2])
  show ?thesis
    using l get_closest_media_row_no_rows [OF l] m by (simp add: print_def)
qed

section \<open>Asset fetcher\<close>

lemma print_fields [simp]:
  "files (print l w) = files w" "calls (print l w) = calls w" "draws (print l w) = draws w"
  "stdout (print l w) = stdout w @ [l]"
  by (simp_all add: print_def)

lemma append_file_fields [simp]:
  "calls (append_file p b w) = calls w" "stdout (append_file p b w) = stdout w"
  "draws (append_file p b w) = draws w"
  by (simp_all add: append_file_def)

lemma write_file_fields [simp]:
  "calls (write_file p b w) = calls w" "stdout (write_file p b w) = stdout w"
  "draws (write_file p b w) = draws w" "files (write_file p b w) = (files w)(p \<mapsto> b)"
  by (simp_all add: write_file_def)

lemma append_file_files:
  "files w p = Some old \<Longrightarrow> files (append_file p b w) = (files w)(p \<mapsto> old @ b)"
  by (simp add: append_file_def)

text \<open>The chunks arrive in order and nothing is lost between them.\<close>

lemma download_loop_files:
  "files w fp = Some old \<Longrightarrow> files (download_loop fp body w) = (files w)(fp \<mapsto> old @ body)"
proof (induction fp body w arbitrary: old rule: download_loop.induct)
  case (1 fp remaining w)
  let ?chunk = "take DEFAULT_CHUNK_SIZE remaining"
  let ?rest = "drop DEFAULT_CHUNK_SIZE remaining"
  let ?w1 = "print DownloadProgress (append_file fp ?chunk w)"
  have f1: "files (append_file fp ?chunk w) = (files w)(fp \<mapsto> old @ ?chunk)"
    using "1.prems" by (simp add: append_file_files)
  show ?case
  proof (cases "?rest = []")
    case True
    then have "?chunk = remaining" by simp
    with True f1 show ?thesis
      by (subst download_loop.simps) (simp add: Let_def)
  next
    case False
    have "files ?w1 fp = Some (old @ ?chunk)"
      using "1.prems" by (simp add: append_file_files)
    from "1.IH" [OF refl refl False this]
    have "files (download_loop fp ?rest ?w1) = (files ?w1)(fp \<mapsto> (old @ ?chunk) @ ?rest)" .
    then have "files (download_loop fp ?rest ?w1) = (files w)(fp \<mapsto> old @ remaining)"
      by (simp add: f1)
    with False show ?thesis
      by (subst download_loop.simps) (simp add: Let_def)
  qed
qed

lemma download_loop_calls: "calls (download_loop fp body w) = calls w"
proof (induction fp body w rule: download_loop.induct)
  case (1 fp remaining w)
  show ?case
  proof (cases "drop DEFAULT_CHUNK_SIZE remaining = []")
    case True
    then show ?thesis by (subst download_loop.simps) (simp add: Let_def)
  next
    case False
    with "1.IH" [OF refl refl False] show ?thesis
      by (subst download_loop.simps) (simp add: Let_def)
  qed
qed



section \<open>Session store\<close>

lemma client_updates [simp]:
  "(cl::client)\<lparr>username := u, password := pw, settings := s\<rparr>
     = \<lparr>username = u, password = pw, settings = s\<rparr>"
  "(cl::client)\<lparr>username := u, password := pw\<rparr>
     = \<lparr>username = u, password = pw, settings = settings cl\<rparr>"
  by (cases cl; simp)+

lemma fresh_login_ok:
  assumes "login_o e (calls w) cl u pw = Inr s"
  shows "fresh_login e cl u pw sp w
     = (Inr (cl\<lparr>settings := s\<rparr>),
        w\<lparr>files := (files w)(sp \<mapsto> encode_settings_o e s),
          stdout := stdout w @ [LoggedInSaved],
          calls := calls w @ [Login u pw]\<rparr>)"
  using assms
  by (simp add: fresh_login_def request_def dump_settings_def write_file_def print_def Let_def)

lemma fresh_login_files:
  "files (snd (fresh_login e cl u pw sp w)) = files w
   \<or> (\<exists>s. fst (fresh_login e cl u pw sp w) = Inr (cl\<lparr>settings := s\<rparr>)
          \<and> files (snd (fresh_login e cl u pw sp w)) = (files w)(sp \<mapsto> encode_settings_o e s))"
  by (cases "login_o e (calls w) cl u pw")
     (auto simp: fresh_login_def request_def dump_settings_def Let_def)

lemma fresh_login_calls:
  "calls (snd (fresh_login e cl u pw sp w)) = calls w @ [Login u pw]"
  by (cases "login_o e (calls w) cl u pw")
     (simp_all add: fresh_login_def request_def dump_settings_def Let_def)

text \<open>
  C4 (as amended). A session file that cannot be loaded makes the call raise: there is
  no relogin, no login and no write. With a session file that loads: when the relogin
  succeeds the client is returned at once, after the single request \<open>Relogin\<close>; when
  the relogin raises, a full login with the credentials follows in every case.
  Without a session file the full login is made directly. A full login that returns is
  followed by writing the session state to the path, replacing what was there; a full
  login that raises ends the call with its exception, and nothing is written.
\<close>

theorem login_with_session_paths:
  "(\<forall>b x.
      files w sp = Some b \<longrightarrow> decode_settings_o e b = Inl x \<longrightarrow>
        login_with_session e cl0 u pw sp w = (Inl x, w))
   \<and> (\<forall>b s s'.
      files w sp = Some b \<longrightarrow> decode_settings_o e b = Inr s \<longrightarrow>
      relogin_o e (calls w) \<lparr>username = u, password = pw, settings = s\<rparr> = Inr s' \<longrightarrow>
        login_with_session e cl0 u pw sp w
          = (Inr \<lparr>username = u, password = pw, settings = s'\<rparr>,
             w\<lparr>stdout := stdout w @ [SessionLoaded], calls := calls w @ [Relogin]\<rparr>))
   \<and> (\<forall>b s x.
      files w sp = Some b \<longrightarrow> decode_settings_o e b = Inr s \<longrightarrow>
      relogin_o e (calls w) \<lparr>username = u, password = pw, settings = s\<rparr> = Inl x \<longrightarrow>
        calls (snd (login_with_session e cl0 u pw sp w)) = calls w @ [Relogin, Login u pw])
   \<and> (\<forall>b s x s'.
      files w sp = Some b \<longrightarrow> decode_settings_o e b = Inr s \<longrightarrow>
      relogin_o e (calls w) \<lparr>username = u, password = pw, settings = s\<rparr> = Inl x \<longrightarrow>
      login_o e (calls w @ [Relogin]) \<lparr>username = u, password = pw, settings = s\<rparr> u pw
        = Inr s' \<longrightarrow>
        login_with_session e cl0 u pw sp w
          = (Inr \<lparr>username = u, password = pw, settings = s'\<rparr>,
             w\<lparr>files := (files w)(sp \<mapsto> encode_settings_o e s'),
               stdout := stdout w @ [ReloginFailed x, LoggedInSaved],
               calls := calls w @ [Relogin, Login u pw]\<rparr>))
   \<and> (\<forall>b s x x'.
      files w sp = Some b \<longrightarrow> decode_settings_o e b = Inr s \<longrightarrow>
      relogin_o e (calls w) \<lparr>username = u, password = pw, settings = s\<rparr> = Inl x \<longrightarrow>
      login_o e (calls w @ [Relogin]) \<lparr>username = u, password = pw, settings = s\<rparr> u pw
        = Inl x' \<longrightarrow>
        login_with_session e cl0 u pw sp w
          = (Inl x',
             w\<lparr>stdout := stdout w @ [ReloginFailed x],
               calls := calls w @ [Relogin, Login u pw]\<rparr>))
   \<and> (\<forall>s'.
      files w sp = None \<longrightarrow>
      login_o e (calls w) \<lparr>username = u, password = pw, settings = settings cl0\<rparr> u pw
        = Inr s' \<longrightarrow>
        login_with_session e cl0 u pw sp w
          = (Inr \<lparr>username = u, password = pw, settings = s'\<rparr>,
             w\<lparr>files := (files w)(sp \<mapsto> encode_settings_o e s'),
               stdout := stdout w @ [LoggedInSaved],
               calls := calls w @ [Login u pw]\<rparr>))
   \<and> (\<forall>x'.
      files w sp = None \<longrightarrow>
      login_o e (calls w) \<lparr>username = u, password = pw, settings = settings cl0\<rparr> u pw
        = Inl x' \<longrightarrow>
        login_with_session e cl0 u pw sp w = (Inl x', w\<lparr>calls := calls w @ [Login u pw]\<rparr>))"
proof (intro conjI allI impI)
  fix b x
  assume "files w sp = Some b" "decode_settings_o e b = Inl x"
  then show "login_with_session e cl0 u pw sp w = (Inl x, w)"
    by (simp add: login_with_session_def path_exists_def load_settings_def Let_def)
next
  fix b s s'
  assume "files w sp = Some b" "decode_settings_o e b = Inr s"
    "relogin_o e (calls w) \<lparr>username = u, password = pw, settings = s\<rparr> = Inr s'"
  then show "login_with_session e cl0 u pw sp w
          = (Inr \<lparr>username = u, password = pw, settings = s'\<rparr>,
             w\<lparr>stdout := stdout w @ [SessionLoaded], calls := calls w @ [Relogin]\<rparr>)"
    by (simp add: login_with_session_def path_exists_def load_settings_def request_def
        print_def Let_def)
next
  fix b s x
  let ?cl = "\<lparr>username = u, password = pw, settings = s\<rparr>"
  let ?w2 = "print (ReloginFailed x) (w\<lparr>calls := calls w @ [Relogin]\<rparr>)"
  assume a: "files w sp = Some b" "decode_settings_o e b = Inr s"
    "relogin_o e (calls w) ?cl = Inl x"
  then have "login_with_session e cl0 u pw sp w = fresh_login e ?cl u pw sp ?w2"
    by (simp add: login_with_session_def path_exists_def load_settings_def request_def Let_def)
  then show "calls (snd (login_with_session e cl0 u pw sp w)) = calls w @ [Relogin, Login u pw]"
    by (simp add: fresh_login_calls)
next
  fix b s x s'
  let ?cl = "\<lparr>username = u, password = pw, settings = s\<rparr>"
  let ?w2 = "print (ReloginFailed x) (w\<lparr>calls := calls w @ [Relogin]\<rparr>)"
  assume a: "files w sp = Some b" "decode_settings_o e b = Inr s"
    "relogin_o e (calls w) ?cl = Inl x"
    "login_o e (calls w @ [Relogin]) ?cl u pw = Inr s'"
  have "login_with_session e cl0 u pw sp w = fresh_login e ?cl u pw sp ?w2"
    using a(1-3)
    by (simp add: login_with_session_def path_exists_def load_settings_def request_def Let_def)
  moreover have "login_o e (calls ?w2) ?cl u pw = Inr s'" using a(4) by (simp add: print_def)
  ultimately show "login_with_session e cl0 u pw sp w
          = (Inr \<lparr>username = u, password = pw, settings = s'\<rparr>,
             w\<lparr>files := (files w)(sp \<mapsto> encode_settings_o e s'),
               stdout := stdout w @ [ReloginFailed x, LoggedInSaved],
               calls := calls w @ [Relogin, Login u pw]\<rparr>)"
    by (simp add: fresh_login_ok print_def)
next
  fix b s x x'
  let ?cl = "\<lparr>username = u, password = pw, settings = s\<rparr>"
  assume a: "files w sp = Some b" "decode_settings_o e b = Inr s"
    "relogin_o e (calls w) ?cl = Inl x"
    "login_o e (calls w @ [Relogin]) ?cl u pw = Inl x'"
  then show "login_with_session e cl0 u pw sp w
          = (Inl x',
             w\<lparr>stdout := stdout w @ [ReloginFailed x],
               calls := calls w @ [Relogin, Login u pw]\<rparr>)"
    by (simp add: login_with_session_def path_exists_def load_settings_def request_def
        fresh_login_def print_def Let_def)
next
  fix s'
  let ?cl = "\<lparr>username = u, password = pw, settings = settings cl0\<rparr>"
  assume a: "files w sp = None" "login_o e (calls w) ?cl u pw = Inr s'"
  have "login_with_session e cl0 u pw sp w = fresh_login e ?cl u pw sp w"
    using a(1) by (simp add: login_with_session_def path_exists_def Let_def)
  with a(2) show "login_with_session e cl0 u pw sp w
          = (Inr \<lparr>username = u, password = pw, settings = s'\<rparr>,
             w\<lparr>files := (files w)(sp \<mapsto> encode_settings_o e s'),
               stdout := stdout w @ [LoggedInSaved],
               calls := calls w @ [Login u pw]\<rparr>)"
    by (simp add: fresh_login_ok)
next
  fix x'
  let ?cl = "\<lparr>username = u, password = pw, settings = settings cl0\<rparr>"
  assume a: "files w sp = None" "login_o e (calls w) ?cl u pw = Inl x'"
  then show "login_with_session e cl0 u pw sp w = (Inl x', w\<lparr>calls := calls w @ [Login u pw]\<rparr>)"
    by (simp add: login_with_session_def path_exists_def fresh_login_def request_def Let_def)
qed

text \<open>
  C4 as the specification states it, with every existing session file followed by a
  relogin, fails for a file that cannot be loaded: line 27 stands outside the
  \<^verbatim>\<open>try\<close>, and the call ends with the exception before any request.
\<close>

theorem login_with_session_unreadable_file_counterexample:
  "path_exists ''insta_session.json'' demo_world
   \<and> login_with_session corrupt_env new_client ''acct'' ''secret'' ''insta_session.json''
        demo_world = (Inl (LibraryError ''JSONDecodeError''), demo_world)
   \<and> Relogin \<notin> set (calls (snd (login_with_session corrupt_env new_client ''acct'' ''secret''
        ''insta_session.json'' demo_world)))
   \<and> Login ''acct'' ''secret'' \<notin> set (calls (snd (login_with_session corrupt_env new_client
        ''acct'' ''secret'' ''insta_session.json'' demo_world)))"
proof -
  have "login_with_session corrupt_env new_client ''acct'' ''secret'' ''insta_session.json''
        demo_world = (Inl (LibraryError ''JSONDecodeError''), demo_world)"
    by (simp add: login_with_session_def path_exists_def load_settings_def corrupt_env_def
        demo_world_def Let_def)
  then show ?thesis by (simp add: path_exists_def demo_world_def)
qed

theorem login_with_session_paths_witness:
  "login_with_session demo_env new_client ''acct'' ''secret'' ''insta_session.json'' demo_world
     = (Inr \<lparr>username = ''acct'', password = ''secret'', settings = ''stored''\<rparr>,
        demo_world\<lparr>stdout := [SessionLoaded], calls := [Relogin]\<rparr>)
   \<and> login_with_session (demo_env\<lparr>relogin_o := (\<lambda>h cl. Inl (LibraryError ''expired''))\<rparr>)
        new_client ''acct'' ''secret'' ''insta_session.json'' demo_world
     = (Inr \<lparr>username = ''acct'', password = ''secret'', settings = ''fresh''\<rparr>,
        demo_world\<lparr>files := (files demo_world)(''insta_session.json'' \<mapsto> ''fresh''),
          stdout := [ReloginFailed (LibraryError ''expired''), LoggedInSaved],
          calls := [Relogin, Login ''acct'' ''secret'']\<rparr>)
   \<and> login_with_session demo_env new_client ''acct'' ''secret'' ''insta_session.json''
        (demo_world\<lparr>files := Map.empty\<rparr>)
     = (Inr \<lparr>username = ''acct'', password = ''secret'', settings = ''fresh''\<rparr>,
        demo_world\<lparr>files := [''insta_session.json'' \<mapsto> ''fresh''],
          stdout := [LoggedInSaved], calls := [Login ''acct'' ''secret'']\<rparr>)
   \<and> login_with_session corrupt_env new_client ''acct'' ''secret'' ''insta_session.json''
        demo_world = (Inl (LibraryError ''JSONDecodeError''), demo_world)
   \<and> calls (snd (login_with_session
        (demo_env\<lparr>relogin_o := (\<lambda>h cl. Inl (LibraryError ''expired''))\<rparr>)
        new_client ''acct'' ''secret'' ''insta_session.json'' demo_world))
      = [Relogin, Login ''acct'' ''secret'']
   \<and> login_with_session
        (demo_env\<lparr>relogin_o := (\<lambda>h cl. Inl (LibraryError ''expired'')),
           login_o := (\<lambda>h cl u p. Inl (LibraryError ''BadPassword''))\<rparr>)
        new_client ''acct'' ''secret'' ''insta_session.json'' demo_world
     = (Inl (LibraryError ''BadPassword''),
        demo_world\<lparr>stdout := [ReloginFailed (LibraryError ''expired'')],
          calls := [Relogin, Login ''acct'' ''secret'']\<rparr>)
   \<and> login_with_session (demo_env\<lparr>login_o := (\<lambda>h cl u p. Inl (LibraryError ''BadPassword''))\<rparr>)
        new_client ''acct'' ''secret'' ''insta_session.json'' (demo_world\<lparr>files := Map.empty\<rparr>)
     = (Inl (LibraryError ''BadPassword''),
        demo_world\<lparr>files := Map.empty, calls := [Login ''acct'' ''secret'']\<rparr>)"
proof -
  let ?e2 = "demo_env\<lparr>relogin_o := (\<lambda>h cl. Inl (LibraryError ''expired''))\<rparr>"
  let ?w3 = "demo_world\<lparr>files := Map.empty\<rparr>"
  let ?cl = "\<lparr>username = ''acct'', password = ''secret'', settings = ''stored''\<rparr>"
  have f: "files demo_world ''insta_session.json'' = Some ''stored''"
    by (simp add: demo_world_def)
  have w: "stdout demo_world = []" "calls demo_world = []" by (simp_all add: demo_world_def)
  have d1: "decode_settings_o demo_env ''stored'' = Inr ''stored''" by (simp add: demo_env_def)
  have r1: "relogin_o demo_env (calls demo_world) ?cl = Inr ''stored''"
    by (simp add: demo_env_def)
  have d2: "decode_settings_o ?e2 ''stored'' = Inr ''stored''" by (simp add: demo_env_def)
  have r2: "relogin_o ?e2 (calls demo_world) ?cl = Inl (LibraryError ''expired'')" by simp
  have l2: "login_o ?e2 (calls demo_world @ [Relogin]) ?cl ''acct'' ''secret'' = Inr ''fresh''"
    by (simp add: demo_env_def)
  have e2: "encode_settings_o ?e2 ''fresh'' = ''fresh''" by (simp add: demo_env_def)
  have f3: "files ?w3 ''insta_session.json'' = None" by simp
  have l3: "login_o demo_env (calls ?w3)
      \<lparr>username = ''acct'', password = ''secret'', settings = settings new_client\<rparr>
      ''acct'' ''secret'' = Inr ''fresh''"
    by (simp add: demo_env_def)
  have e3: "encode_settings_o demo_env ''fresh'' = ''fresh''" by (simp add: demo_env_def)
  have c1: "login_with_session demo_env new_client ''acct'' ''secret'' ''insta_session.json''
      demo_world
     = (Inr \<lparr>username = ''acct'', password = ''secret'', settings = ''stored''\<rparr>,
        demo_world\<lparr>stdout := stdout demo_world @ [SessionLoaded],
          calls := calls demo_world @ [Relogin]\<rparr>)"
    using login_with_session_paths
      [of demo_world "''insta_session.json''" demo_env new_client "''acct''" "''secret''"]
      f d1 r1 by blast
  have c2: "login_with_session ?e2 new_client ''acct'' ''secret'' ''insta_session.json''
      demo_world
     = (Inr \<lparr>username = ''acct'', password = ''secret'', settings = ''fresh''\<rparr>,
        demo_world\<lparr>files := (files demo_world)
            (''insta_session.json'' \<mapsto> encode_settings_o ?e2 ''fresh''),
          stdout := stdout demo_world @ [ReloginFailed (LibraryError ''expired''), LoggedInSaved],
          calls := calls demo_world @ [Relogin, Login ''acct'' ''secret'']\<rparr>)"
    using login_with_session_paths
      [of demo_world "''insta_session.json''" ?e2 new_client "''acct''" "''secret''"]
      f d2 r2 l2 by blast
  have c3: "login_with_session demo_env new_client ''acct'' ''secret'' ''insta_session.json''
      ?w3
     = (Inr \<lparr>username = ''acct'', password = ''secret'', settings = ''fresh''\<rparr>,
        ?w3\<lparr>files := (files ?w3)(''insta_session.json'' \<mapsto> encode_settings_o demo_env ''fresh''),
          stdout := stdout ?w3 @ [LoggedInSaved],
          calls := calls ?w3 @ [Login ''acct'' ''secret'']\<rparr>)"
    using login_with_session_paths
      [of ?w3 "''insta_session.json''" demo_env new_client "''acct''" "''secret''"]
      f3 l3 by blast
  let ?eb = "demo_env\<lparr>relogin_o := (\<lambda>h cl. Inl (LibraryError ''expired'')),
      login_o := (\<lambda>h cl u p. Inl (LibraryError ''BadPassword''))\<rparr>"
  let ?el = "demo_env\<lparr>login_o := (\<lambda>h cl u p. Inl (LibraryError ''BadPassword''))\<rparr>"
  have d0: "decode_settings_o corrupt_env ''stored'' = Inl (LibraryError ''JSONDecodeError'')"
    by (simp add: corrupt_env_def)
  have c0: "login_with_session corrupt_env new_client ''acct'' ''secret''
      ''insta_session.json'' demo_world = (Inl (LibraryError ''JSONDecodeError''), demo_world)"
    using login_with_session_paths
      [of demo_world "''insta_session.json''" corrupt_env new_client "''acct''" "''secret''"]
      f d0 by blast
  have c2': "calls (snd (login_with_session ?e2 new_client ''acct'' ''secret''
      ''insta_session.json'' demo_world))
      = calls demo_world @ [Relogin, Login ''acct'' ''secret'']"
    using login_with_session_paths
      [of demo_world "''insta_session.json''" ?e2 new_client "''acct''" "''secret''"]
      f d2 r2 by blast
  have d4: "decode_settings_o ?eb ''stored'' = Inr ''stored''" by (simp add: demo_env_def)
  have r4: "relogin_o ?eb (calls demo_world) ?cl = Inl (LibraryError ''expired'')" by simp
  have l4: "login_o ?eb (calls demo_world @ [Relogin]) ?cl ''acct'' ''secret''
      = Inl (LibraryError ''BadPassword'')"
    by simp
  have c4: "login_with_session ?eb new_client ''acct'' ''secret'' ''insta_session.json''
      demo_world
     = (Inl (LibraryError ''BadPassword''),
        demo_world\<lparr>stdout := stdout demo_world @ [ReloginFailed (LibraryError ''expired'')],
          calls := calls demo_world @ [Relogin, Login ''acct'' ''secret'']\<rparr>)"
    using login_with_session_paths
      [of demo_world "''insta_session.json''" ?eb new_client "''acct''" "''secret''"]
      f d4 r4 l4 by blast
  have l5: "login_o ?el (calls ?w3)
      \<lparr>username = ''acct'', password = ''secret'', settings = settings new_client\<rparr>
      ''acct'' ''secret'' = Inl (LibraryError ''BadPassword'')"
    by simp
  have c5: "login_with_session ?el new_client ''acct'' ''secret'' ''insta_session.json'' ?w3
     = (Inl (LibraryError ''BadPassword''),
        ?w3\<lparr>calls := calls ?w3 @ [Login ''acct'' ''secret'']\<rparr>)"
    using login_with_session_paths
      [of ?w3 "''insta_session.json''" ?el new_client "''acct''" "''secret''"]
      f3 l5 by blast
  from c1 c2 c3 c0 c2' c4 c5 show ?thesis by (simp add: w e2 e3)
qed

lemma login_with_session_route:
  "files (snd (login_with_session e cl0 u pw sp w)) = files w
   \<or> (\<exists>cl w0. login_with_session e cl0 u pw sp w = fresh_login e cl u pw sp w0
         \<and> files w0 = files w)"
proof (cases "files w sp")
  case None
  then have "login_with_session e cl0 u pw sp w
      = fresh_login e \<lparr>username = u, password = pw, settings = settings cl0\<rparr> u pw sp w"
    by (simp add: login_with_session_def path_exists_def Let_def)
  then show ?thesis by blast
next
  case (Some b)
  show ?thesis
  proof (cases "decode_settings_o e b")
    case (Inl x)
    with Some show ?thesis
      by (simp add: login_with_session_def path_exists_def load_settings_def Let_def)
  next
    case (Inr s)
    let ?cl = "\<lparr>username = u, password = pw, settings = s\<rparr>"
    show ?thesis
    proof (cases "relogin_o e (calls w) ?cl")
      case (Inl x)
      let ?w0 = "print (ReloginFailed x) (w\<lparr>calls := calls w @ [Relogin]\<rparr>)"
      from Some Inr Inl have "login_with_session e cl0 u pw sp w = fresh_login e ?cl u pw sp ?w0"
        by (simp add: login_with_session_def path_exists_def load_settings_def request_def
            Let_def)
      moreover have "files ?w0 = files w" by simp
      ultimately show ?thesis by blast
    next
      case (Inr s')
      with Some \<open>decode_settings_o e b = Inr s\<close> show ?thesis
        by (simp add: login_with_session_def path_exists_def load_settings_def request_def
            Let_def)
    qed
  qed
qed

text \<open>
  C10. When the session file loads and the relogin succeeds, no local file is written:
  the files after the call are the files before it. Whenever the call changes the
  files at all, the last request made was the full login, and the only change is the
  session state written to the path.
\<close>

theorem login_with_session_writes_only_on_full_login:
  "(\<forall>b s s'.
      files w sp = Some b \<longrightarrow> decode_settings_o e b = Inr s \<longrightarrow>
      relogin_o e (calls w) \<lparr>username = u, password = pw, settings = s\<rparr> = Inr s' \<longrightarrow>
        files (snd (login_with_session e cl0 u pw sp w)) = files w
        \<and> files (snd (login_with_session e cl0 u pw sp w)) sp = Some b
        \<and> Login u pw \<notin> set (calls_since (calls w) (snd (login_with_session e cl0 u pw sp w))))
   \<and> (files (snd (login_with_session e cl0 u pw sp w)) \<noteq> files w \<longrightarrow>
        last (calls (snd (login_with_session e cl0 u pw sp w))) = Login u pw
        \<and> (\<exists>s. files (snd (login_with_session e cl0 u pw sp w))
                 = (files w)(sp \<mapsto> encode_settings_o e s)))"
proof (intro conjI allI impI)
  fix b s s'
  assume a: "files w sp = Some b" "decode_settings_o e b = Inr s"
    "relogin_o e (calls w) \<lparr>username = u, password = pw, settings = s\<rparr> = Inr s'"
  then have r: "login_with_session e cl0 u pw sp w
      = (Inr \<lparr>username = u, password = pw, settings = s'\<rparr>,
         print SessionLoaded (w\<lparr>calls := calls w @ [Relogin]\<rparr>))"
    by (simp add: login_with_session_def path_exists_def load_settings_def request_def Let_def)
  show "files (snd (login_with_session e cl0 u pw sp w)) = files w" by (simp add: r)
  show "files (snd (login_with_session e cl0 u pw sp w)) sp = Some b" by (simp add: r a(1))
  show "Login u pw \<notin> set (calls_since (calls w) (snd (login_with_session e cl0 u pw sp w)))"
    by (simp add: r calls_since_def)
next
  assume ne: "files (snd (login_with_session e cl0 u pw sp w)) \<noteq> files w"
  with login_with_session_route [of e cl0 u pw sp w] obtain cl w0 where
    f: "login_with_session e cl0 u pw sp w = fresh_login e cl u pw sp w0" "files w0 = files w"
    by blast
  show "last (calls (snd (login_with_session e cl0 u pw sp w))) = Login u pw"
    by (simp add: f(1) fresh_login_calls)
  from fresh_login_files [of e cl u pw sp w0] ne f
  show "\<exists>s. files (snd (login_with_session e cl0 u pw sp w))
                 = (files w)(sp \<mapsto> encode_settings_o e s)"
    by auto
qed

theorem login_with_session_writes_only_on_full_login_witness:
  "files (snd (login_with_session demo_env new_client ''acct'' ''secret''
       ''insta_session.json'' demo_world)) = files demo_world
   \<and> files (snd (login_with_session demo_env new_client ''acct'' ''secret''
       ''insta_session.json'' demo_world)) ''insta_session.json'' = Some ''stored''
   \<and> files (snd (login_with_session demo_env new_client ''acct'' ''secret''
       ''insta_session.json'' (demo_world\<lparr>files := Map.empty\<rparr>))) \<noteq> Map.empty
   \<and> last (calls (snd (login_with_session demo_env new_client ''acct'' ''secret''
       ''insta_session.json'' (demo_world\<lparr>files := Map.empty\<rparr>)))) = Login ''acct'' ''secret''"
proof -
  let ?w3 = "demo_world\<lparr>files := Map.empty\<rparr>"
  let ?cl = "\<lparr>username = ''acct'', password = ''secret'', settings = ''stored''\<rparr>"
  have f: "files demo_world ''insta_session.json'' = Some ''stored''"
    by (simp add: demo_world_def)
  have d1: "decode_settings_o demo_env ''stored'' = Inr ''stored''" by (simp add: demo_env_def)
  have r1: "relogin_o demo_env (calls demo_world) ?cl = Inr ''stored''"
    by (simp add: demo_env_def)
  have c1: "files (snd (login_with_session demo_env new_client ''acct'' ''secret''
       ''insta_session.json'' demo_world)) = files demo_world
     \<and> files (snd (login_with_session demo_env new_client ''acct'' ''secret''
       ''insta_session.json'' demo_world)) ''insta_session.json'' = Some ''stored''"
    using login_with_session_writes_only_on_full_login
      [of demo_world "''insta_session.json''" demo_env "''acct''" "''secret''" new_client]
      f d1 r1 by blast
  have n3: "files (snd (login_with_session demo_env new_client ''acct'' ''secret''
       ''insta_session.json'' ?w3)) \<noteq> files ?w3"
  proof
    assume "files (snd (login_with_session demo_env new_client ''acct'' ''secret''
       ''insta_session.json'' ?w3)) = files ?w3"
    then have "files (snd (login_with_session demo_env new_client ''acct'' ''secret''
       ''insta_session.json'' ?w3)) ''insta_session.json'' = None" by simp
    then show False
      by (simp add: login_with_session_def path_exists_def fresh_login_def request_def
          dump_settings_def demo_env_def Let_def)
  qed
  have c3: "last (calls (snd (login_with_session demo_env new_client ''acct'' ''secret''
       ''insta_session.json'' ?w3))) = Login ''acct'' ''secret''"
    using login_with_session_writes_only_on_full_login
      [of ?w3 "''insta_session.json''" demo_env "''acct''" "''secret''" new_client] n3
    by blast
  from c1 n3 c3 show ?thesis by (simp add: f)
qed

section \<open>Publisher\<close>

lemma main_reaches_publish:
  assumes "login_with_session e new_client (getenv_username e) (getenv_password e)
             SESSION_FILE_PATH w = (Inr cl, w1)"
    and "credentials_o e = Inr ()"
    and "get_closest_media_row e ''media_schedule.csv'' w1 = (Inr row, w2)"
    and "download_file_from_drive e ''english_skills_101'' (file_path row) w2
           = (Inr (Some p), w3)"
    and "p \<noteq> []"
  shows "main e w = publish_and_engage e cl p (caption row) w3"
  using assms by (simp add: main_def series_empty_def row_labels_def)

text \<open>
  C8. The publisher first requests the feed post, with the caption, and then the story,
  with the path alone. When both succeed, these are its two requests, in this order.
  When the post upload raises, the story upload is not attempted; when the story upload
  raises, the post has already been made. In both cases the exception is returned
  unchanged, and \<open>main\<close> ends with it: no file is removed and no later request is made.
\<close>

theorem upload_video_and_story_order:
  "(\<forall>fs1 fs2.
      video_upload_o e (calls w) cl (files w) vp cap = (Inr (), fs1) \<longrightarrow>
      video_upload_to_story_o e (calls w @ [VideoUpload vp cap]) cl fs1 vp = (Inr (), fs2) \<longrightarrow>
        upload_video_and_story e cl vp cap w
          = (Inr (),
             w\<lparr>files := fs2, stdout := stdout w @ [UploadedPost cap, UploadedStory],
               calls := calls w @ [VideoUpload vp cap, VideoUploadToStory vp]\<rparr>))
   \<and> (\<forall>x fs1.
      video_upload_o e (calls w) cl (files w) vp cap = (Inl x, fs1) \<longrightarrow>
        upload_video_and_story e cl vp cap w
          = (Inl x, w\<lparr>files := fs1, calls := calls w @ [VideoUpload vp cap]\<rparr>))
   \<and> (\<forall>fs1 x fs2.
      video_upload_o e (calls w) cl (files w) vp cap = (Inr (), fs1) \<longrightarrow>
      video_upload_to_story_o e (calls w @ [VideoUpload vp cap]) cl fs1 vp = (Inl x, fs2) \<longrightarrow>
        upload_video_and_story e cl vp cap w
          = (Inl x,
             w\<lparr>files := fs2, stdout := stdout w @ [UploadedPost cap],
               calls := calls w @ [VideoUpload vp cap, VideoUploadToStory vp]\<rparr>))
   \<and> (\<forall>x w'. upload_video_and_story e cl vp cap w = (Inl x, w') \<longrightarrow>
        publish_and_engage e cl vp cap w = (Inl x, w'))
   \<and> (\<forall>w0 w1 row w2 x w'.
        login_with_session e new_client (getenv_username e) (getenv_password e)
          SESSION_FILE_PATH w0 = (Inr cl, w1) \<longrightarrow>
        credentials_o e = Inr () \<longrightarrow>
        get_closest_media_row e ''media_schedule.csv'' w1 = (Inr row, w2) \<longrightarrow>
        download_file_from_drive e ''english_skills_101'' (file_path row) w2
          = (Inr (Some vp), w) \<longrightarrow>
        vp \<noteq> [] \<longrightarrow> cap = caption row \<longrightarrow>
        upload_video_and_story e cl vp cap w = (Inl x, w') \<longrightarrow>
          main e w0 = (Inl x, w'))"
proof (intro conjI allI impI)
  fix fs1 fs2
  assume "video_upload_o e (calls w) cl (files w) vp cap = (Inr (), fs1)"
    "video_upload_to_story_o e (calls w @ [VideoUpload vp cap]) cl fs1 vp = (Inr (), fs2)"
  then show "upload_video_and_story e cl vp cap w
          = (Inr (),
             w\<lparr>files := fs2, stdout := stdout w @ [UploadedPost cap, UploadedStory],
               calls := calls w @ [VideoUpload vp cap, VideoUploadToStory vp]\<rparr>)"
    by (simp add: upload_video_and_story_def upload_request_def print_def Let_def)
next
  fix x fs1
  assume "video_upload_o e (calls w) cl (files w) vp cap = (Inl x, fs1)"
  then show "upload_video_and_story e cl vp cap w
          = (Inl x, w\<lparr>files := fs1, calls := calls w @ [VideoUpload vp cap]\<rparr>)"
    by (simp add: upload_video_and_story_def upload_request_def)
next
  fix fs1 x fs2
  assume "video_upload_o e (calls w) cl (files w) vp cap = (Inr (), fs1)"
    "video_upload_to_story_o e (calls w @ [VideoUpload vp cap]) cl fs1 vp = (Inl x, fs2)"
  then show "upload_video_and_story e cl vp cap w
          = (Inl x,
             w\<lparr>files := fs2, stdout := stdout w @ [UploadedPost cap],
               calls := calls w @ [VideoUpload vp cap, VideoUploadToStory vp]\<rparr>)"
    by (simp add: upload_video_and_story_def upload_request_def print_def Let_def)
next
  fix x w'
  assume "upload_video_and_story e cl vp cap w = (Inl x, w')"
  then show "publish_and_engage e cl vp cap w = (Inl x, w')"
    by (simp add: publish_and_engage_def)
next
  fix w0 w1 row w2 x w'
  assume a: "login_with_session e new_client (getenv_username e) (getenv_password e)
          SESSION_FILE_PATH w0 = (Inr cl, w1)"
    "credentials_o e = Inr ()"
    "get_closest_media_row e ''media_schedule.csv'' w1 = (Inr row, w2)"
    "download_file_from_drive e ''english_skills_101'' (file_path row) w2 = (Inr (Some vp), w)"
    "vp \<noteq> []" "cap = caption row"
    "upload_video_and_story e cl vp cap w = (Inl x, w')"
  from main_reaches_publish [OF a(1-5)] a(6,7) show "main e w0 = (Inl x, w')"
    by (simp add: publish_and_engage_def)
qed

lemma download_found:
  assumes "drive_list_o e (folder_query folder_name) = Inr (folder # others)"
    and "drive_list_o e (file_query file_name (item_id folder)) = Inr (item # others')"
    and "drive_media_o e (item_id item) = Inr body"
  shows "\<exists>w'. download_file_from_drive e folder_name file_name w = (Inr (Some file_name), w')
           \<and> files w' = (files w)(file_name \<mapsto> body) \<and> calls w' = calls w"
proof -
  let ?w3 = "write_file file_name []
      (print (FoundFile file_name (item_id item))
         (print (FoundFolder folder_name (item_id folder)) w))"
  have d: "download_file_from_drive e folder_name file_name w
      = (Inr (Some file_name),
         print (Downloaded file_name file_name) (download_loop file_name body ?w3))"
    using assms by (simp add: download_file_from_drive_def Let_def)
  have "files ?w3 file_name = Some []" by simp
  from download_loop_files [OF this]
  have "files (download_loop file_name body ?w3) = (files w)(file_name \<mapsto> body)"
    by simp
  with d show ?thesis by (simp add: download_loop_calls)
qed

text \<open>The first steps of the run in environments that answer as \<open>demo_env\<close> does.\<close>

lemma login_as_demo:
  assumes "decode_settings_o e ''stored'' = Inr ''stored''"
    and "\<And>h cl. relogin_o e h cl = Inr (settings cl)"
    and "getenv_username e = ''acct''" and "getenv_password e = ''secret''"
  shows "login_with_session e new_client (getenv_username e) (getenv_password e)
           SESSION_FILE_PATH demo_world
         = (Inr demo_client, print SessionLoaded (demo_world\<lparr>calls := [Relogin]\<rparr>))"
  using assms
  by (simp add: login_with_session_def path_exists_def load_settings_def request_def
      SESSION_FILE_PATH_def demo_world_def new_client_def demo_client_def Let_def)

lemma closest_as_demo:
  assumes "files w ''media_schedule.csv'' = Some b"
    and "read_csv_o e b = Inr demo_csv"
    and "to_datetime_o e = to_datetime_o demo_env" and "now_utc e = 1000"
  shows "get_closest_media_row e ''media_schedule.csv'' w
   = (Inr \<lparr>date_time = 900, file_path = ''a.mp4'', caption = ''hello'', time_delta = 100\<rparr>, w)"
  using assms
  by (simp add: get_closest_media_row_def load_schedule_def demo_env_def demo_csv_def
      with_time_delta_def idxmin_def loc_def Let_def)

lemma download_as_demo:
  assumes "drive_list_o e = demo_drive_list" and "drive_media_o e ''V1'' = Inr ''video-bytes''"
  shows "\<exists>w'. download_file_from_drive e ''english_skills_101'' ''a.mp4'' w
             = (Inr (Some ''a.mp4''), w')
           \<and> files w' = (files w)(''a.mp4'' \<mapsto> ''video-bytes'') \<and> calls w' = calls w"
proof (rule download_found)
  show "drive_list_o e (folder_query ''english_skills_101'')
      = Inr (\<lparr>item_id = ''F1'', item_name = ''english_skills_101''\<rparr> # [])"
    by (simp add: assms demo_drive_list_def)
  show "drive_list_o e (file_query ''a.mp4''
          (item_id \<lparr>item_id = ''F1'', item_name = ''english_skills_101''\<rparr>))
      = Inr (\<lparr>item_id = ''V1'', item_name = ''a.mp4''\<rparr> # [])"
    by (simp add: assms demo_drive_list_def file_query_def folder_query_def apostrophe_def)
  show "drive_media_o e (item_id \<lparr>item_id = ''V1'', item_name = ''a.mp4''\<rparr>)
      = Inr ''video-bytes''"
    by (simp add: assms)
qed

theorem upload_video_and_story_order_witness:
  "upload_video_and_story demo_env demo_client ''a.mp4'' ''hello'' demo_world
     = (Inr (),
        demo_world\<lparr>files := (files demo_world)(''a.mp4.jpg'' \<mapsto> ''thumb''),
          stdout := [UploadedPost ''hello'', UploadedStory],
          calls := [VideoUpload ''a.mp4'' ''hello'', VideoUploadToStory ''a.mp4'']\<rparr>)
   \<and> upload_video_and_story
        (demo_env\<lparr>video_upload_o := (\<lambda>h cl fs p c. (Inl (LibraryError ''upload''), fs))\<rparr>)
        demo_client ''a.mp4'' ''hello'' demo_world
     = (Inl (LibraryError ''upload''), demo_world\<lparr>calls := [VideoUpload ''a.mp4'' ''hello'']\<rparr>)
   \<and> upload_video_and_story
        (demo_env\<lparr>video_upload_to_story_o := (\<lambda>h cl fs p. (Inl (LibraryError ''story''), fs))\<rparr>)
        demo_client ''a.mp4'' ''hello'' demo_world
     = (Inl (LibraryError ''story''),
        demo_world\<lparr>files := (files demo_world)(''a.mp4.jpg'' \<mapsto> ''thumb''),
          stdout := [UploadedPost ''hello''],
          calls := [VideoUpload ''a.mp4'' ''hello'', VideoUploadToStory ''a.mp4'']\<rparr>)
   \<and> publish_and_engage
        (demo_env\<lparr>video_upload_o := (\<lambda>h cl fs p c. (Inl (LibraryError ''upload''), fs))\<rparr>)
        demo_client ''a.mp4'' ''hello'' demo_world
     = (Inl (LibraryError ''upload''), demo_world\<lparr>calls := [VideoUpload ''a.mp4'' ''hello'']\<rparr>)
   \<and> fst (main
        (demo_env\<lparr>video_upload_o := (\<lambda>h cl fs p c. (Inl (LibraryError ''upload''), fs))\<rparr>)
        demo_world) = Inl (LibraryError ''upload'')
   \<and> calls (snd (main
        (demo_env\<lparr>video_upload_o := (\<lambda>h cl fs p c. (Inl (LibraryError ''upload''), fs))\<rparr>)
        demo_world)) = [Relogin, VideoUpload ''a.mp4'' ''hello'']"
proof -
  let ?ep = "demo_env\<lparr>video_upload_o := (\<lambda>h cl fs p c. (Inl (LibraryError ''upload''), fs))\<rparr>"
  let ?es = "demo_env\<lparr>video_upload_to_story_o := (\<lambda>h cl fs p. (Inl (LibraryError ''story''), fs))\<rparr>"
  let ?fj = "(files demo_world)(''a.mp4.jpg'' \<mapsto> ''thumb'')"
  let ?w1 = "print SessionLoaded (demo_world\<lparr>calls := [Relogin]\<rparr>)"
  let ?row = "\<lparr>date_time = 900, file_path = ''a.mp4'', caption = ''hello'', time_delta = 100\<rparr>"
  have w: "stdout demo_world = []" "calls demo_world = []" by (simp_all add: demo_world_def)
  have u1: "video_upload_o demo_env (calls demo_world) demo_client (files demo_world)
      ''a.mp4'' ''hello'' = (Inr (), ?fj)"
    by (simp add: demo_env_def)
  have s1: "video_upload_to_story_o demo_env (calls demo_world @ [VideoUpload ''a.mp4'' ''hello''])
      demo_client ?fj ''a.mp4'' = (Inr (), ?fj)"
    by (simp add: demo_env_def)
  have c1: "upload_video_and_story demo_env demo_client ''a.mp4'' ''hello'' demo_world
     = (Inr (),
        demo_world\<lparr>files := ?fj,
          stdout := stdout demo_world @ [UploadedPost ''hello'', UploadedStory],
          calls := calls demo_world @ [VideoUpload ''a.mp4'' ''hello'', VideoUploadToStory ''a.mp4'']\<rparr>)"
    using upload_video_and_story_order [of demo_env demo_world demo_client "''a.mp4''" "''hello''"]
      u1 s1 by blast
  have u2: "\<And>w. video_upload_o ?ep (calls w) demo_client (files w) ''a.mp4'' ''hello''
      = (Inl (LibraryError ''upload''), files w)"
    by simp
  have c2: "\<And>w. upload_video_and_story ?ep demo_client ''a.mp4'' ''hello'' w
     = (Inl (LibraryError ''upload''),
        w\<lparr>files := files w, calls := calls w @ [VideoUpload ''a.mp4'' ''hello'']\<rparr>)"
    using upload_video_and_story_order [of ?ep _ demo_client "''a.mp4''" "''hello''"] u2
    by blast
  have u3: "video_upload_o ?es (calls demo_world) demo_client (files demo_world)
      ''a.mp4'' ''hello'' = (Inr (), ?fj)"
    by (simp add: demo_env_def)
  have s3: "video_upload_to_story_o ?es (calls demo_world @ [VideoUpload ''a.mp4'' ''hello''])
      demo_client ?fj ''a.mp4'' = (Inl (LibraryError ''story''), ?fj)"
    by simp
  have c3: "upload_video_and_story ?es demo_client ''a.mp4'' ''hello'' demo_world
     = (Inl (LibraryError ''story''),
        demo_world\<lparr>files := ?fj,
          stdout := stdout demo_world @ [UploadedPost ''hello''],
          calls := calls demo_world @ [VideoUpload ''a.mp4'' ''hello'', VideoUploadToStory ''a.mp4'']\<rparr>)"
    using upload_video_and_story_order [of ?es demo_world demo_client "''a.mp4''" "''hello''"]
      u3 s3 by blast
  have c4: "publish_and_engage ?ep demo_client ''a.mp4'' ''hello'' demo_world
     = (Inl (LibraryError ''upload''),
        demo_world\<lparr>files := files demo_world,
          calls := calls demo_world @ [VideoUpload ''a.mp4'' ''hello'']\<rparr>)"
    using upload_video_and_story_order [of ?ep demo_world demo_client "''a.mp4''" "''hello''"]
      c2 [of demo_world] by blast
  have l: "login_with_session ?ep new_client (getenv_username ?ep) (getenv_password ?ep)
      SESSION_FILE_PATH demo_world = (Inr demo_client, ?w1)"
    by (rule login_as_demo) (simp_all add: demo_env_def)
  have cr: "credentials_o ?ep = Inr ()" by (simp add: demo_env_def)
  have g: "get_closest_media_row ?ep ''media_schedule.csv'' ?w1 = (Inr ?row, ?w1)"
    by (rule closest_as_demo [of _ "''schedule''"]) (simp_all add: demo_env_def demo_world_def)
  from download_as_demo [of ?ep ?w1] obtain w3 where
    d: "download_file_from_drive ?ep ''english_skills_101'' ''a.mp4'' ?w1
          = (Inr (Some ''a.mp4''), w3)" "calls w3 = calls ?w1"
    by (auto simp: demo_env_def)
  have c5: "main ?ep demo_world
     = (Inl (LibraryError ''upload''),
        w3\<lparr>files := files w3, calls := calls w3 @ [VideoUpload ''a.mp4'' ''hello'']\<rparr>)"
    using upload_video_and_story_order [of ?ep w3 demo_client "''a.mp4''" "''hello''"]
      l cr g d(1) c2 [of w3] by simp
  from c1 c2 [of demo_world] c3 c4 show ?thesis by (simp add: w c5 d(2))
qed

section \<open>Engagement sampler\<close>

lemma request_world [simp]:
  "files (snd (request c a w)) = files w" "stdout (snd (request c a w)) = stdout w"
  "draws (snd (request c a w)) = draws w" "calls (snd (request c a w)) = calls w @ [c]"
  "fst (request c a w) = a (calls w)"
  by (simp_all add: request_def)

lemma random_choice_world [simp]:
  "files (snd (random_choice e xs w)) = files w" "calls (snd (random_choice e xs w)) = calls w"
  "stdout (snd (random_choice e xs w)) = stdout w"
  by (simp_all add: random_choice_def)

lemma calls_since_same [simp]: "calls w' = calls w \<Longrightarrow> calls_since (calls w) w' = []"
  by (simp add: calls_since_def)

lemma calls_since_append [simp]:
  "calls w' = calls w @ cs \<Longrightarrow> calls_since (calls w) w' = cs"
  by (simp add: calls_since_def)

text \<open>What the body of the sampler leaves behind: no file touched, only its own requests.\<close>

lemma sample_try_frame:
  "files (snd (sample_try e ts cl w)) = files w
   \<and> (\<exists>cs. calls (snd (sample_try e ts cl w)) = calls w @ cs \<and> list_all is_sampler_call cs)"
proof (cases "random_choice e ts w")
  case (Pair r1 w1)
  have w1: "files w1 = files w" "calls w1 = calls w"
    using random_choice_world [of e ts w] Pair by simp_all
  show ?thesis
  proof (cases r1)
    case (Inl x)
    with Pair w1 show ?thesis by (simp add: sample_try_def)
  next
    case (Inr t)
    let ?w2 = "print (SelectedUsername t) w1"
    show ?thesis
    proof (cases "user_id_from_username_o e (calls w) cl t")
      case (Inl x)
      with Pair Inr w1 show ?thesis
        by (simp add: sample_try_def Let_def request_def)
    next
      case uid: (Inr user_id)
      let ?w3 = "snd (request (UserIdFromUsername t)
                        (\<lambda>h. user_id_from_username_o e h cl t) ?w2)"
      let ?w4 = "print (UserId t user_id) ?w3"
      have w4: "files ?w4 = files w" "calls ?w4 = calls w @ [UserIdFromUsername t]"
        using w1 by simp_all
      show ?thesis
      proof (cases "user_medias_o e (calls ?w4) cl user_id 10")
        case (Inl x)
        with Pair Inr uid w1 show ?thesis
          by (simp add: sample_try_def Let_def request_def)
      next
        case ml: (Inr media_list)
        let ?w5 = "snd (request (UserMedias user_id 10)
                          (\<lambda>h. user_medias_o e h cl user_id 10) ?w4)"
        have w5: "files ?w5 = files w"
          "calls ?w5 = calls w @ [UserIdFromUsername t, UserMedias user_id 10]"
          using w1 by simp_all
        show ?thesis
        proof (cases "media_list = []")
          case True
          with Pair Inr uid ml w1 show ?thesis
            by (simp add: sample_try_def Let_def request_def)
        next
          case False
          obtain r6 w6 where p6: "random_choice e media_list ?w5 = (r6, w6)" by force
          have w6: "files w6 = files w"
            "calls w6 = calls w @ [UserIdFromUsername t, UserMedias user_id 10]"
            using random_choice_world [of e media_list ?w5] p6 w1 by simp_all
          have p6': "random_choice e media_list
              (print (UserId t user_id) (print (SelectedUsername t) w1)
                 \<lparr>calls := calls w @ [UserIdFromUsername t, UserMedias user_id 10]\<rparr>) = (r6, w6)"
            using p6 w1 by (simp add: request_def print_def)
          show ?thesis
          proof (cases r6)
            case (Inl x)
            with Pair Inr uid ml False p6' w1 w6 show ?thesis
              by (simp add: sample_try_def Let_def request_def print_def)
          next
            case post: (Inr random_post)
            with Pair Inr uid ml False p6' w1 w6 show ?thesis
              by (cases "media_likers_o e
                    (calls w @ [UserIdFromUsername t, UserMedias user_id 10]) cl
                    (media_pk random_post)")
                 (simp_all add: sample_try_def Let_def request_def print_def)
          qed
        qed
      qed
    qed
  qed
qed

lemma sample_try_length:
  "fst (sample_try e ts cl w) = Inr us \<Longrightarrow> length us \<le> 10"
  by (auto simp: sample_try_def Let_def split: prod.splits sum.splits if_splits)

lemma get_random_likers_world:
  "files (snd (get_random_likers_from_targets e ts cl w)) = files (snd (sample_try e ts cl w))"
  "calls (snd (get_random_likers_from_targets e ts cl w)) = calls (snd (sample_try e ts cl w))"
  by (simp_all add: get_random_likers_from_targets_def split: prod.splits sum.splits)

text \<open>
  C6. The sampler always returns a list, of at most ten names, whatever the client
  answers: an exception raised inside it becomes the empty list, and so does an
  account without posts.
\<close>

theorem get_random_likers_never_raises:
  "(\<exists>us w'. get_random_likers_from_targets e ts cl w = (Inr us, w') \<and> length us \<le> 10)
   \<and> (\<forall>x. fst (sample_try e ts cl w) = Inl x \<longrightarrow>
         fst (get_random_likers_from_targets e ts cl w) = Inr []
         \<and> last (stdout (snd (get_random_likers_from_targets e ts cl w)))
             = ErrorFetchingLikers x)
   \<and> (\<forall>uid.
        ts \<noteq> [] \<longrightarrow>
        user_id_from_username_o e (calls w) cl (ts ! (random_o e (draws w) mod length ts))
          = Inr uid \<longrightarrow>
        user_medias_o e
          (calls w @ [UserIdFromUsername (ts ! (random_o e (draws w) mod length ts))]) cl uid 10
          = Inr [] \<longrightarrow>
          fst (get_random_likers_from_targets e ts cl w) = Inr []
          \<and> last (stdout (snd (get_random_likers_from_targets e ts cl w)))
              = NoPosts (ts ! (random_o e (draws w) mod length ts)))"
proof (intro conjI allI impI)
  show "\<exists>us w'. get_random_likers_from_targets e ts cl w = (Inr us, w') \<and> length us \<le> 10"
  proof (cases "sample_try e ts cl w")
    case (Pair r w1)
    show ?thesis
    proof (cases r)
      case (Inl x)
      with Pair show ?thesis by (simp add: get_random_likers_from_targets_def)
    next
      case (Inr us)
      with Pair have "length us \<le> 10" using sample_try_length [of e ts cl w us] by simp
      with Pair Inr show ?thesis by (simp add: get_random_likers_from_targets_def)
    qed
  qed
next
  fix x
  assume "fst (sample_try e ts cl w) = Inl x"
  then obtain w1 where "sample_try e ts cl w = (Inl x, w1)"
    by (cases "sample_try e ts cl w") simp
  then show "fst (get_random_likers_from_targets e ts cl w) = Inr []"
    and "last (stdout (snd (get_random_likers_from_targets e ts cl w))) = ErrorFetchingLikers x"
    by (simp_all add: get_random_likers_from_targets_def)
next
  fix uid
  let ?t = "ts ! (random_o e (draws w) mod length ts)"
  assume a: "ts \<noteq> []" "user_id_from_username_o e (calls w) cl ?t = Inr uid"
    "user_medias_o e (calls w @ [UserIdFromUsername ?t]) cl uid 10 = Inr []"
  then have "fst (sample_try e ts cl w) = Inr []"
    "last (stdout (snd (sample_try e ts cl w))) = NoPosts ?t"
    by (simp_all add: sample_try_def random_choice_def request_def Let_def)
  then obtain w' where "sample_try e ts cl w = (Inr [], w')" "last (stdout w') = NoPosts ?t"
    by (cases "sample_try e ts cl w") simp
  then show "fst (get_random_likers_from_targets e ts cl w) = Inr []"
    and "last (stdout (snd (get_random_likers_from_targets e ts cl w))) = NoPosts ?t"
    by (simp_all add: get_random_likers_from_targets_def)
qed

lemma sample_as_demo:
  assumes "random_o e 0 = 0" "random_o e 1 = 1"
    and "\<And>h cl u. user_id_from_username_o e h cl u = Inr ''42''"
    and "\<And>h cl uid n. user_medias_o e h cl uid n = Inr (take n demo_medias)"
    and "\<And>h cl pk. media_likers_o e h cl pk = Inr demo_likers"
  shows "fst (sample_try e target_usernames cl demo_world)
    = Inr [''l01'', ''l02'', ''l03'', ''l04'', ''l05'', ''l06'', ''l07'', ''l08'', ''l09'', ''l10'']"
  using assms
  by (simp add: sample_try_def random_choice_def request_def print_def Let_def
      target_usernames_def demo_world_def demo_medias_def demo_likers_def)

theorem get_random_likers_never_raises_witness:
  "fst (get_random_likers_from_targets demo_env target_usernames demo_client demo_world)
     = Inr [''l01'', ''l02'', ''l03'', ''l04'', ''l05'', ''l06'', ''l07'', ''l08'', ''l09'', ''l10'']
   \<and> fst (get_random_likers_from_targets
        (demo_env\<lparr>user_id_from_username_o := (\<lambda>h cl u. Inl (LibraryError ''UserNotFound''))\<rparr>)
        target_usernames demo_client demo_world) = Inr []
   \<and> last (stdout (snd (get_random_likers_from_targets
        (demo_env\<lparr>user_id_from_username_o := (\<lambda>h cl u. Inl (LibraryError ''UserNotFound''))\<rparr>)
        target_usernames demo_client demo_world)))
      = ErrorFetchingLikers (LibraryError ''UserNotFound'')
   \<and> fst (get_random_likers_from_targets (demo_env\<lparr>user_medias_o := (\<lambda>h cl uid n. Inr [])\<rparr>)
        target_usernames demo_client demo_world) = Inr []
   \<and> last (stdout (snd (get_random_likers_from_targets
        (demo_env\<lparr>user_medias_o := (\<lambda>h cl uid n. Inr [])\<rparr>)
        target_usernames demo_client demo_world)))
      = NoPosts ''howimetyourmotherthefanpage''"
proof -
  let ?ee = "demo_env\<lparr>user_id_from_username_o := (\<lambda>h cl u. Inl (LibraryError ''UserNotFound''))\<rparr>"
  let ?e0 = "demo_env\<lparr>user_medias_o := (\<lambda>h cl uid n. Inr [])\<rparr>"
  have s1: "fst (sample_try demo_env target_usernames demo_client demo_world)
    = Inr [''l01'', ''l02'', ''l03'', ''l04'', ''l05'', ''l06'', ''l07'', ''l08'', ''l09'', ''l10'']"
    by (rule sample_as_demo) (simp_all add: demo_env_def)
  from get_random_likers_never_raises [of demo_env target_usernames demo_client demo_world]
  obtain us w' where
    r: "get_random_likers_from_targets demo_env target_usernames demo_client demo_world
          = (Inr us, w')" "length us \<le> 10"
    by blast
  from r(1) s1 have c1: "fst (get_random_likers_from_targets demo_env target_usernames
      demo_client demo_world)
     = Inr [''l01'', ''l02'', ''l03'', ''l04'', ''l05'', ''l06'', ''l07'', ''l08'', ''l09'', ''l10'']"
    by (simp add: get_random_likers_from_targets_def split: prod.splits sum.splits)
  have s2: "fst (sample_try ?ee target_usernames demo_client demo_world)
      = Inl (LibraryError ''UserNotFound'')"
    by (simp add: sample_try_def random_choice_def request_def Let_def target_usernames_def)
  have c2: "fst (get_random_likers_from_targets ?ee target_usernames demo_client demo_world)
       = Inr []
     \<and> last (stdout (snd (get_random_likers_from_targets ?ee target_usernames demo_client
         demo_world))) = ErrorFetchingLikers (LibraryError ''UserNotFound'')"
    using get_random_likers_never_raises [of ?ee target_usernames demo_client demo_world] s2
    by blast
  have t: "target_usernames \<noteq> []"
    "target_usernames ! (random_o ?e0 (draws demo_world) mod length target_usernames)
       = ''howimetyourmotherthefanpage''"
    by (simp_all add: target_usernames_def demo_env_def demo_world_def)
  have u3: "user_id_from_username_o ?e0 (calls demo_world) demo_client
      (target_usernames ! (random_o ?e0 (draws demo_world) mod length target_usernames))
      = Inr ''42''"
    by (simp add: demo_env_def)
  have m3: "user_medias_o ?e0
      (calls demo_world @ [UserIdFromUsername
         (target_usernames ! (random_o ?e0 (draws demo_world) mod length target_usernames))])
      demo_client ''42'' 10 = Inr []"
    by simp
  have c3: "fst (get_random_likers_from_targets ?e0 target_usernames demo_client demo_world)
       = Inr []
     \<and> last (stdout (snd (get_random_likers_from_targets ?e0 target_usernames demo_client
         demo_world)))
       = NoPosts (target_usernames
           ! (random_o ?e0 (draws demo_world) mod length target_usernames))"
    using get_random_likers_never_raises [of ?e0 target_usernames demo_client demo_world]
      t(1) u3 m3 by blast
  have t': "target_usernames ! (random_o demo_env (draws demo_world) mod length target_usernames)
       = ''howimetyourmotherthefanpage''"
    by (simp add: target_usernames_def demo_env_def demo_world_def)
  from c1 c2 c3 show ?thesis by (simp add: t')
qed

section \<open>The engagement pass in the main run\<close>

text \<open>
  C7. When the sampler returns the empty list, the engagement pass ends with the
  sampler: the state it returns is the state the sampler left. No session file is
  read or written, and the only requests made are those of the sampler itself, so
  there is no relogin, no login, no user lookup and no like. The run that reaches the
  pass after publishing and removing the local files ends there, without an exception.
\<close>

theorem engagement_pass_skipped_without_likers:
  "fst (get_random_likers_from_targets e target_usernames cl w) = Inr [] \<longrightarrow>
     engagement_pass e cl w
       = (Inr (), snd (get_random_likers_from_targets e target_usernames cl w))
     \<and> files (snd (engagement_pass e cl w)) = files w
     \<and> list_all is_sampler_call (calls_since (calls w) (snd (engagement_pass e cl w)))
     \<and> (\<forall>w0 vp cap w1.
          upload_video_and_story e cl vp cap w0 = (Inr (), w1) \<longrightarrow>
          remove_local_files vp w1 = (Inr (), w) \<longrightarrow>
            publish_and_engage e cl vp cap w0
              = (Inr (), snd (get_random_likers_from_targets e target_usernames cl w)))"
proof
  let ?s = "get_random_likers_from_targets e target_usernames cl w"
  assume a: "fst ?s = Inr []"
  then have s: "?s = (Inr [], snd ?s)" by (cases ?s) simp
  have p: "engagement_pass e cl w = (Inr (), snd ?s)"
    by (subst engagement_pass_def, subst s) simp
  from sample_try_frame [of e target_usernames cl w] obtain cs where
    f: "files (snd (sample_try e target_usernames cl w)) = files w"
       "calls (snd (sample_try e target_usernames cl w)) = calls w @ cs"
       "list_all is_sampler_call cs"
    by blast
  have "files (snd ?s) = files w" by (simp add: get_random_likers_world f(1))
  moreover have "calls (snd ?s) = calls w @ cs" by (simp add: get_random_likers_world f(2))
  then have "calls_since (calls w) (snd ?s) = cs" by simp
  moreover have "\<forall>w0 vp cap w1.
          upload_video_and_story e cl vp cap w0 = (Inr (), w1) \<longrightarrow>
          remove_local_files vp w1 = (Inr (), w) \<longrightarrow>
            publish_and_engage e cl vp cap w0 = (Inr (), snd ?s)"
    by (simp add: publish_and_engage_def p)
  ultimately show "engagement_pass e cl w = (Inr (), snd ?s)
     \<and> files (snd (engagement_pass e cl w)) = files w
     \<and> list_all is_sampler_call (calls_since (calls w) (snd (engagement_pass e cl w)))
     \<and> (\<forall>w0 vp cap w1.
          upload_video_and_story e cl vp cap w0 = (Inr (), w1) \<longrightarrow>
          remove_local_files vp w1 = (Inr (), w) \<longrightarrow>
            publish_and_engage e cl vp cap w0 = (Inr (), snd ?s))"
    using p f(3) by simp
qed

theorem engagement_pass_skipped_without_likers_witness:
  "fst (get_random_likers_from_targets (demo_env\<lparr>user_medias_o := (\<lambda>h cl uid n. Inr [])\<rparr>)
      target_usernames demo_client
      (demo_world\<lparr>stdout := [UploadedPost ''hello'', UploadedStory],
         calls := [VideoUpload ''a.mp4'' ''hello'', VideoUploadToStory ''a.mp4'']\<rparr>)) = Inr []
   \<and> fst (engagement_pass (demo_env\<lparr>user_medias_o := (\<lambda>h cl uid n. Inr [])\<rparr>) demo_client
        (demo_world\<lparr>stdout := [UploadedPost ''hello'', UploadedStory],
           calls := [VideoUpload ''a.mp4'' ''hello'', VideoUploadToStory ''a.mp4'']\<rparr>)) = Inr ()
   \<and> calls (snd (engagement_pass (demo_env\<lparr>user_medias_o := (\<lambda>h cl uid n. Inr [])\<rparr>)
        demo_client
        (demo_world\<lparr>stdout := [UploadedPost ''hello'', UploadedStory],
           calls := [VideoUpload ''a.mp4'' ''hello'', VideoUploadToStory ''a.mp4'']\<rparr>)))
      = [VideoUpload ''a.mp4'' ''hello'', VideoUploadToStory ''a.mp4'',
         UserIdFromUsername ''howimetyourmotherthefanpage'', UserMedias ''42'' 10]
   \<and> files (snd (engagement_pass (demo_env\<lparr>user_medias_o := (\<lambda>h cl uid n. Inr [])\<rparr>)
        demo_client
        (demo_world\<lparr>stdout := [UploadedPost ''hello'', UploadedStory],
           calls := [VideoUpload ''a.mp4'' ''hello'', VideoUploadToStory ''a.mp4'']\<rparr>)))
      = files demo_world
   \<and> fst (publish_and_engage (demo_env\<lparr>user_medias_o := (\<lambda>h cl uid n. Inr [])\<rparr>)
        demo_client ''a.mp4'' ''hello''
        (demo_world\<lparr>files := (files demo_world)(''a.mp4'' \<mapsto> ''video-bytes'')\<rparr>)) = Inr ()
   \<and> calls (snd (publish_and_engage (demo_env\<lparr>user_medias_o := (\<lambda>h cl uid n. Inr [])\<rparr>)
        demo_client ''a.mp4'' ''hello''
        (demo_world\<lparr>files := (files demo_world)(''a.mp4'' \<mapsto> ''video-bytes'')\<rparr>)))
      = [VideoUpload ''a.mp4'' ''hello'', VideoUploadToStory ''a.mp4'',
         UserIdFromUsername ''howimetyourmotherthefanpage'', UserMedias ''42'' 10]"
proof -
  let ?e0 = "demo_env\<lparr>user_medias_o := (\<lambda>h cl uid n. Inr [])\<rparr>"
  let ?w = "demo_world\<lparr>stdout := [UploadedPost ''hello'', UploadedStory],
      calls := [VideoUpload ''a.mp4'' ''hello'', VideoUploadToStory ''a.mp4'']\<rparr>"
  let ?wv = "demo_world\<lparr>files := (files demo_world)(''a.mp4'' \<mapsto> ''video-bytes'')\<rparr>"
  let ?w1 = "demo_world\<lparr>files := (files demo_world)
        (''a.mp4'' \<mapsto> ''video-bytes'', ''a.mp4.jpg'' \<mapsto> ''thumb''),
      stdout := [UploadedPost ''hello'', UploadedStory],
      calls := [VideoUpload ''a.mp4'' ''hello'', VideoUploadToStory ''a.mp4'']\<rparr>"
  have s: "get_random_likers_from_targets ?e0 target_usernames demo_client ?w
      = (Inr [],
         demo_world\<lparr>stdout := [UploadedPost ''hello'', UploadedStory,
             SelectedUsername ''howimetyourmotherthefanpage'',
             UserId ''howimetyourmotherthefanpage'' ''42'',
             NoPosts ''howimetyourmotherthefanpage''],
           calls := [VideoUpload ''a.mp4'' ''hello'', VideoUploadToStory ''a.mp4'',
             UserIdFromUsername ''howimetyourmotherthefanpage'', UserMedias ''42'' 10],
           draws := 1\<rparr>)"
    by (simp add: get_random_likers_from_targets_def sample_try_def random_choice_def
        request_def print_def Let_def target_usernames_def demo_env_def demo_world_def)
  then have a: "fst (get_random_likers_from_targets ?e0 target_usernames demo_client ?w)
      = Inr []"
    by simp
  have up: "upload_video_and_story ?e0 demo_client ''a.mp4'' ''hello'' ?wv = (Inr (), ?w1)"
    by (simp add: upload_video_and_story_def upload_request_def print_def Let_def
        demo_env_def demo_world_def)
  have fd: "files demo_world ''a.mp4'' = None" "files demo_world ''a.mp4.jpg'' = None"
    by (simp_all add: demo_world_def)
  have "((files demo_world)(''a.mp4'' \<mapsto> ''video-bytes'', ''a.mp4.jpg'' \<mapsto> ''thumb''))
      (''a.mp4'' := None, ''a.mp4.jpg'' := None) = files demo_world"
    using fd by (auto simp: fun_eq_iff)
  then have rm: "remove_local_files ''a.mp4'' ?w1 = (Inr (), ?w)"
    by (simp add: remove_local_files_def os_remove_def path_exists_def Let_def)
  note t = engagement_pass_skipped_without_likers [of ?e0 demo_client ?w]
  from t a have c1: "engagement_pass ?e0 demo_client ?w
       = (Inr (), snd (get_random_likers_from_targets ?e0 target_usernames demo_client ?w))"
    by blast
  from t a have c2: "files (snd (engagement_pass ?e0 demo_client ?w)) = files ?w"
    by blast
  from t a up rm have c3: "publish_and_engage ?e0 demo_client ''a.mp4'' ''hello'' ?wv
       = (Inr (), snd (get_random_likers_from_targets ?e0 target_usernames demo_client ?w))"
    by blast
  from a c1 c2 c3 show ?thesis by (simp add: s)
qed

section \<open>Engagement actor\<close>

text \<open>The loop over the posts likes a prefix of the list: all of it unless a like raises.\<close>

lemma like_all_frame:
  "\<exists>k\<le>length ms.
     calls (snd (like_all e cl ms w)) = calls w @ map (\<lambda>m. MediaLike (media_pk m)) (take k ms)
     \<and> files (snd (like_all e cl ms w)) = files w"
proof (induction ms arbitrary: w)
  case Nil
  then show ?case by simp
next
  case (Cons m ms)
  show ?case
  proof (cases "media_like_o e (calls w) cl (media_pk m)")
    case (Inl x)
    then have "calls (snd (like_all e cl (m # ms) w))
        = calls w @ map (\<lambda>m. MediaLike (media_pk m)) (take 1 (m # ms))
      \<and> files (snd (like_all e cl (m # ms) w)) = files w"
      by (simp add: request_def)
    then show ?thesis by (intro exI [of _ 1]) simp
  next
    case (Inr b)
    let ?w1 = "print (LikedPost (media_pk m)) (w\<lparr>calls := calls w @ [MediaLike (media_pk m)]\<rparr>)"
    from Cons.IH [of ?w1] obtain k where
      k: "k \<le> length ms"
         "calls (snd (like_all e cl ms ?w1))
            = calls ?w1 @ map (\<lambda>m. MediaLike (media_pk m)) (take k ms)"
         "files (snd (like_all e cl ms ?w1)) = files ?w1"
      by blast
    from Inr have "like_all e cl (m # ms) w = like_all e cl ms ?w1"
      by (simp add: request_def)
    with k have "calls (snd (like_all e cl (m # ms) w))
        = calls w @ map (\<lambda>m. MediaLike (media_pk m)) (take (Suc k) (m # ms))
      \<and> files (snd (like_all e cl (m # ms) w)) = files w"
      by simp
    with k(1) show ?thesis by (intro exI [of _ "Suc k"]) simp
  qed
qed

lemma likes_only:
  "filter is_like (map (\<lambda>m. MediaLike (media_pk m)) xs) = map (\<lambda>m. MediaLike (media_pk m)) xs"
  "filter is_user_info (map (\<lambda>m. MediaLike (media_pk m)) xs) = []"
  by (induction xs) simp_all

text \<open>
  One turn of the loop over the users: the lookup of the user, and after it either
  nothing, or the request for four posts followed by likes of posts of the answer.
\<close>

lemma process_try_frame:
  "\<exists>seg. calls (snd (process_try e cl u w)) = calls w @ UserInfoByUsername u # seg
     \<and> filter is_user_info seg = []
     \<and> (honours_amount e \<longrightarrow> length (filter is_like seg) \<le> 4)
     \<and> (\<forall>info. user_info_by_username_o e (calls w) cl u = Inr info \<longrightarrow>
            is_private info \<or> media_count info \<le> 4 \<longrightarrow> seg = [])
     \<and> files (snd (process_try e cl u w)) = files w"
proof (cases "user_info_by_username_o e (calls w) cl u")
  case (Inl x)
  then have "calls (snd (process_try e cl u w)) = calls w @ UserInfoByUsername u # []
      \<and> files (snd (process_try e cl u w)) = files w"
    by (simp add: process_try_def request_def)
  with Inl show ?thesis by (intro exI [of _ "[]"]) simp
next
  case (Inr info)
  show ?thesis
  proof (cases "\<not> is_private info \<and> media_count info > 4")
    case False
    with Inr have "calls (snd (process_try e cl u w)) = calls w @ UserInfoByUsername u # []
        \<and> files (snd (process_try e cl u w)) = files w"
      by (auto simp: process_try_def request_def)
    then show ?thesis by (intro exI [of _ "[]"]) simp
  next
    case True
    let ?h = "calls w @ [UserInfoByUsername u]"
    let ?w2 = "print (ProcessingUser u) (w\<lparr>calls := ?h\<rparr>)"
    show ?thesis
    proof (cases "user_medias_o e ?h cl (user_pk info) 4")
      case (Inl x)
      with Inr True have "calls (snd (process_try e cl u w))
          = calls w @ UserInfoByUsername u # [UserMedias (user_pk info) 4]
        \<and> files (snd (process_try e cl u w)) = files w"
        by (simp add: process_try_def request_def Let_def)
      with Inr True show ?thesis
        by (intro exI [of _ "[UserMedias (user_pk info) 4]"]) auto
    next
      case ml: (Inr media_list)
      let ?w3 = "?w2\<lparr>calls := ?h @ [UserMedias (user_pk info) 4]\<rparr>"
      from like_all_frame [of media_list e cl ?w3] obtain k where
        k: "k \<le> length media_list"
           "calls (snd (like_all e cl media_list ?w3))
              = calls ?w3 @ map (\<lambda>m. MediaLike (media_pk m)) (take k media_list)"
           "files (snd (like_all e cl media_list ?w3)) = files ?w3"
        by blast
      let ?seg = "UserMedias (user_pk info) 4
          # map (\<lambda>m. MediaLike (media_pk m)) (take k media_list)"
      from Inr True ml have "process_try e cl u w = like_all e cl media_list ?w3"
        by (simp add: process_try_def request_def Let_def)
      with k have c: "calls (snd (process_try e cl u w)) = calls w @ UserInfoByUsername u # ?seg"
        and f: "files (snd (process_try e cl u w)) = files w"
        by simp_all
      have "honours_amount e \<longrightarrow> length (filter is_like ?seg) \<le> 4"
      proof
        assume "honours_amount e"
        with ml have "length media_list \<le> 4" by (auto simp: honours_amount_def)
        then show "length (filter is_like ?seg) \<le> 4" by (simp add: likes_only)
      qed
      moreover have "filter is_user_info ?seg = []" by (simp add: likes_only)
      ultimately show ?thesis using c f Inr True
        by (intro exI [of _ ?seg]) auto
    qed
  qed
qed

lemma process_user_frame:
  "fst (process_user e cl u w) = Inr ()
   \<and> (\<exists>seg. calls (snd (process_user e cl u w)) = calls w @ UserInfoByUsername u # seg
     \<and> filter is_user_info seg = []
     \<and> (honours_amount e \<longrightarrow> length (filter is_like seg) \<le> 4)
     \<and> (\<forall>info. user_info_by_username_o e (calls w) cl u = Inr info \<longrightarrow>
            is_private info \<or> media_count info \<le> 4 \<longrightarrow> seg = []))
   \<and> files (snd (process_user e cl u w)) = files w"
proof -
  obtain r w1 where p: "process_try e cl u w = (r, w1)" by force
  have q: "fst (process_user e cl u w) = Inr ()"
    "calls (snd (process_user e cl u w)) = calls (snd (process_try e cl u w))"
    "files (snd (process_user e cl u w)) = files (snd (process_try e cl u w))"
    using p by (cases r; simp add: process_user_def)+
  from process_try_frame [of e cl u w] obtain seg where
    s: "calls (snd (process_try e cl u w)) = calls w @ UserInfoByUsername u # seg"
       "filter is_user_info seg = []"
       "honours_amount e \<longrightarrow> length (filter is_like seg) \<le> 4"
       "\<forall>info. user_info_by_username_o e (calls w) cl u = Inr info \<longrightarrow>
            is_private info \<or> media_count info \<le> 4 \<longrightarrow> seg = []"
       "files (snd (process_try e cl u w)) = files w"
    by blast
  have "\<exists>seg. calls (snd (process_user e cl u w)) = calls w @ UserInfoByUsername u # seg
     \<and> filter is_user_info seg = []
     \<and> (honours_amount e \<longrightarrow> length (filter is_like seg) \<le> 4)
     \<and> (\<forall>info. user_info_by_username_o e (calls w) cl u = Inr info \<longrightarrow>
            is_private info \<or> media_count info \<le> 4 \<longrightarrow> seg = [])"
    using s(1-4) q(2) by (intro exI [of _ seg]) simp
  with q(1,3) s(5) show ?thesis by simp
qed

lemma process_usernames_fold:
  "process_usernames e us cl w = (Inr (), foldl (\<lambda>w u. snd (process_user e cl u w)) w us)"
proof (induction us arbitrary: w)
  case Nil
  then show ?case by simp
next
  case (Cons u us)
  obtain w1 where "process_user e cl u w = (Inr (), w1)"
    using process_user_frame [of e cl u w] by (cases "process_user e cl u w") simp
  with Cons.IH [of w1] show ?case by simp
qed

lemma process_usernames_frame:
  "\<exists>cs. calls (snd (process_usernames e us cl w)) = calls w @ cs
     \<and> filter is_user_info cs = map UserInfoByUsername us
     \<and> files (snd (process_usernames e us cl w)) = files w"
proof (induction us arbitrary: w)
  case Nil
  then show ?case by simp
next
  case (Cons u us)
  obtain w1 where p: "process_user e cl u w = (Inr (), w1)"
    using process_user_frame [of e cl u w] by (cases "process_user e cl u w") simp
  with process_user_frame [of e cl u w] obtain seg where
    s: "calls w1 = calls w @ UserInfoByUsername u # seg" "filter is_user_info seg = []"
       "files w1 = files w"
    by auto
  from Cons.IH [of w1] obtain cs where
    c: "calls (snd (process_usernames e us cl w1)) = calls w1 @ cs"
       "filter is_user_info cs = map UserInfoByUsername us"
       "files (snd (process_usernames e us cl w1)) = files w1"
    by blast
  from p s c have "calls (snd (process_usernames e (u # us) cl w))
        = calls w @ (UserInfoByUsername u # seg @ cs)
      \<and> filter is_user_info (UserInfoByUsername u # seg @ cs) = map UserInfoByUsername (u # us)
      \<and> files (snd (process_usernames e (u # us) cl w)) = files w"
    by simp
  then show ?case by blast
qed

text \<open>
  C5. \<open>process_usernames\<close> never raises, and it handles every name of the list in turn,
  whatever happened with the names before it: its final state is the fold of the single
  turns, and the user lookups it makes are exactly those of the list, in order. A turn
  for a user who is private or has at most four posts makes the lookup and nothing else.
  A turn asks for four posts and likes only posts of the answer, so it makes at most
  four likes when the client returns no more posts than it was asked for.
\<close>

theorem process_usernames_skips_bounds_isolates:
  assumes "honours_amount e"
  shows "process_usernames e us cl w
           = (Inr (), foldl (\<lambda>w u. snd (process_user e cl u w)) w us)
    \<and> filter is_user_info (calls_since (calls w) (snd (process_usernames e us cl w)))
        = map UserInfoByUsername us
    \<and> (\<forall>u w0.
          fst (process_user e cl u w0) = Inr ()
          \<and> length (filter is_like (calls_since (calls w0) (snd (process_user e cl u w0)))) \<le> 4
          \<and> (\<forall>info. user_info_by_username_o e (calls w0) cl u = Inr info \<longrightarrow>
                 is_private info \<or> media_count info \<le> 4 \<longrightarrow>
                 calls_since (calls w0) (snd (process_user e cl u w0))
                   = [UserInfoByUsername u]))"
proof (intro conjI)
  show "process_usernames e us cl w
           = (Inr (), foldl (\<lambda>w u. snd (process_user e cl u w)) w us)"
    by (rule process_usernames_fold)
  from process_usernames_frame [of e us cl w] obtain cs where
    "calls (snd (process_usernames e us cl w)) = calls w @ cs"
    "filter is_user_info cs = map UserInfoByUsername us"
    by blast
  then show "filter is_user_info (calls_since (calls w) (snd (process_usernames e us cl w)))
        = map UserInfoByUsername us"
    by simp
  show "\<forall>u w0.
          fst (process_user e cl u w0) = Inr ()
          \<and> length (filter is_like (calls_since (calls w0) (snd (process_user e cl u w0)))) \<le> 4
          \<and> (\<forall>info. user_info_by_username_o e (calls w0) cl u = Inr info \<longrightarrow>
                 is_private info \<or> media_count info \<le> 4 \<longrightarrow>
                 calls_since (calls w0) (snd (process_user e cl u w0))
                   = [UserInfoByUsername u])"
  proof (intro allI)
    fix u w0
    from process_user_frame [of e cl u w0] obtain seg where
      s: "fst (process_user e cl u w0) = Inr ()"
         "calls (snd (process_user e cl u w0)) = calls w0 @ UserInfoByUsername u # seg"
         "honours_amount e \<longrightarrow> length (filter is_like seg) \<le> 4"
         "\<forall>info. user_info_by_username_o e (calls w0) cl u = Inr info \<longrightarrow>
              is_private info \<or> media_count info \<le> 4 \<longrightarrow> seg = []"
      by blast
    from s(2) have c: "calls_since (calls w0) (snd (process_user e cl u w0))
        = UserInfoByUsername u # seg"
      by simp
    from s(1,3,4) assms
    show "fst (process_user e cl u w0) = Inr ()
          \<and> length (filter is_like (calls_since (calls w0) (snd (process_user e cl u w0)))) \<le> 4
          \<and> (\<forall>info. user_info_by_username_o e (calls w0) cl u = Inr info \<longrightarrow>
                 is_private info \<or> media_count info \<le> 4 \<longrightarrow>
                 calls_since (calls w0) (snd (process_user e cl u w0))
                   = [UserInfoByUsername u])"
      by (simp add: c)
  qed
qed

theorem process_usernames_skips_bounds_isolates_witness:
  "honours_amount demo_env
   \<and> fst (process_usernames demo_env [''private'', ''ghost'', ''quiet'', ''fan''] demo_client
        demo_world) = Inr ()
   \<and> filter is_user_info (calls_since (calls demo_world)
        (snd (process_usernames demo_env [''private'', ''ghost'', ''quiet'', ''fan'']
           demo_client demo_world)))
      = map UserInfoByUsername [''private'', ''ghost'', ''quiet'', ''fan'']
   \<and> calls_since (calls demo_world) (snd (process_user demo_env demo_client ''private''
        demo_world)) = [UserInfoByUsername ''private'']
   \<and> calls_since (calls demo_world) (snd (process_user demo_env demo_client ''quiet''
        demo_world)) = [UserInfoByUsername ''quiet'']
   \<and> length (filter is_like (calls_since (calls demo_world)
        (snd (process_user demo_env demo_client ''fan'' demo_world)))) \<le> 4
   \<and> calls (snd (process_usernames demo_env [''private'', ''ghost'', ''quiet'', ''fan'']
        demo_client demo_world))
      = [UserInfoByUsername ''private'', UserInfoByUsername ''ghost'',
         UserInfoByUsername ''quiet'', UserInfoByUsername ''fan'', UserMedias ''9'' 4,
         MediaLike ''m1'', MediaLike ''m2'', MediaLike ''m3'', MediaLike ''m4'']"
proof -
  let ?us = "[''private'', ''ghost'', ''quiet'', ''fan'']"
  have h: "honours_amount demo_env" by (simp add: honours_amount_def demo_env_def)
  note t = process_usernames_skips_bounds_isolates [OF h, of ?us demo_client demo_world]
  have i1: "user_info_by_username_o demo_env (calls demo_world) demo_client ''private''
      = Inr \<lparr>user_pk = ''7'', is_private = True, media_count = 20\<rparr>"
    by (simp add: demo_env_def demo_user_info_def)
  have i2: "user_info_by_username_o demo_env (calls demo_world) demo_client ''quiet''
      = Inr \<lparr>user_pk = ''8'', is_private = False, media_count = 4\<rparr>"
    by (simp add: demo_env_def demo_user_info_def)
  from t have c1: "fst (process_usernames demo_env ?us demo_client demo_world) = Inr ()"
    by simp
  from t have c2: "filter is_user_info (calls_since (calls demo_world)
        (snd (process_usernames demo_env ?us demo_client demo_world)))
      = map UserInfoByUsername ?us"
    by blast
  from t i1 have c3: "calls_since (calls demo_world)
      (snd (process_user demo_env demo_client ''private'' demo_world))
      = [UserInfoByUsername ''private'']"
    by force
  from t i2 have c4: "calls_since (calls demo_world)
      (snd (process_user demo_env demo_client ''quiet'' demo_world))
      = [UserInfoByUsername ''quiet'']"
    by force
  from t have c5: "length (filter is_like (calls_since (calls demo_world)
        (snd (process_user demo_env demo_client ''fan'' demo_world)))) \<le> 4"
    by blast
  have c6: "calls (snd (process_usernames demo_env ?us demo_client demo_world))
      = [UserInfoByUsername ''private'', UserInfoByUsername ''ghost'',
         UserInfoByUsername ''quiet'', UserInfoByUsername ''fan'', UserMedias ''9'' 4,
         MediaLike ''m1'', MediaLike ''m2'', MediaLike ''m3'', MediaLike ''m4'']"
    by (simp add: process_user_def process_try_def request_def print_def Let_def
        demo_env_def demo_user_info_def demo_medias_def demo_world_def)
  from h c1 c2 c3 c4 c5 c6 show ?thesis by blast
qed

section \<open>Removing the local files\<close>

lemma login_with_session_keeps_files:
  "files w q \<noteq> None \<Longrightarrow> files (snd (login_with_session e cl0 u pw sp w)) q \<noteq> None"
proof -
  assume a: "files w q \<noteq> None"
  from login_with_session_route [of e cl0 u pw sp w] show ?thesis
  proof
    assume "files (snd (login_with_session e cl0 u pw sp w)) = files w"
    with a show ?thesis by simp
  next
    assume "\<exists>cl w0. login_with_session e cl0 u pw sp w = fresh_login e cl u pw sp w0
         \<and> files w0 = files w"
    then obtain cl w0 where
      f: "login_with_session e cl0 u pw sp w = fresh_login e cl u pw sp w0" "files w0 = files w"
      by blast
    from fresh_login_files [of e cl u pw sp w0] a f show ?thesis by auto
  qed
qed

lemma engagement_pass_keeps_files:
  assumes "files w q \<noteq> None"
  shows "files (snd (engagement_pass e cl w)) q \<noteq> None"
proof -
  let ?s = "get_random_likers_from_targets e target_usernames cl w"
  obtain r w1 where s: "?s = (r, w1)" by force
  have "files (snd ?s) = files w"
    using sample_try_frame [of e target_usernames cl w] by (simp add: get_random_likers_world)
  with s assms have w1: "files w1 q \<noteq> None" by simp
  show ?thesis
  proof (cases r)
    case (Inl x)
    with s w1 show ?thesis by (simp add: engagement_pass_def)
  next
    case (Inr usernames)
    show ?thesis
    proof (cases "usernames = []")
      case True
      with s Inr w1 show ?thesis by (simp add: engagement_pass_def)
    next
      case False
      obtain r2 w2 where l: "login_with_session e new_client (getenv_username e)
          (getenv_password e) SESSION_FILE_PATH w1 = (r2, w2)"
        by force
      with login_with_session_keeps_files [OF w1, of e new_client "getenv_username e"
          "getenv_password e" SESSION_FILE_PATH]
      have w2: "files w2 q \<noteq> None" by simp
      show ?thesis
      proof (cases r2)
        case (Inl x)
        with s Inr False l w2 show ?thesis by (simp add: engagement_pass_def)
      next
        case cl2: (Inr cl')
        from process_usernames_frame [of e usernames cl' w2]
        have "files (snd (process_usernames e usernames cl' w2)) = files w2" by blast
        with s Inr False l cl2 w2 show ?thesis by (simp add: engagement_pass_def)
      qed
    qed
  qed
qed

text \<open>
  C9. With the downloaded file in place, the removal step succeeds and deletes that
  file; it deletes the file of the same name with \<^verbatim>\<open>.jpg\<close> appended when that file
  exists, and does not try to when it does not; every other local file stays as it
  was. In the run the step follows a successful publish, and the engagement pass that
  comes after it removes no file.
\<close>

theorem remove_local_files_effect:
  "(path_exists p w \<longrightarrow>
      remove_local_files p w
        = (Inr (),
           w\<lparr>files := (if path_exists (p @ ''.jpg'') w
                        then (files w)(p := None, p @ ''.jpg'' := None)
                        else (files w)(p := None))\<rparr>)
      \<and> (\<forall>q. q \<noteq> p \<longrightarrow> q \<noteq> p @ ''.jpg'' \<longrightarrow>
             files (snd (remove_local_files p w)) q = files w q))
   \<and> (\<forall>w0 w1.
        upload_video_and_story e cl p cap w0 = (Inr (), w1) \<longrightarrow> path_exists p w1 \<longrightarrow>
          publish_and_engage e cl p cap w0
            = engagement_pass e cl (snd (remove_local_files p w1)))
   \<and> (\<forall>q. files w q \<noteq> None \<longrightarrow> files (snd (engagement_pass e cl w)) q \<noteq> None)"
proof (intro conjI)
  have ne: "p @ ''.jpg'' \<noteq> p" by simp
  show "path_exists p w \<longrightarrow>
      remove_local_files p w
        = (Inr (),
           w\<lparr>files := (if path_exists (p @ ''.jpg'') w
                        then (files w)(p := None, p @ ''.jpg'' := None)
                        else (files w)(p := None))\<rparr>)
      \<and> (\<forall>q. q \<noteq> p \<longrightarrow> q \<noteq> p @ ''.jpg'' \<longrightarrow>
             files (snd (remove_local_files p w)) q = files w q)"
    using ne by (simp add: remove_local_files_def os_remove_def path_exists_def Let_def)
  show "\<forall>w0 w1.
        upload_video_and_story e cl p cap w0 = (Inr (), w1) \<longrightarrow> path_exists p w1 \<longrightarrow>
          publish_and_engage e cl p cap w0
            = engagement_pass e cl (snd (remove_local_files p w1))"
    using ne
    by (simp add: publish_and_engage_def remove_local_files_def os_remove_def path_exists_def
        Let_def)
  show "\<forall>q. files w q \<noteq> None \<longrightarrow> files (snd (engagement_pass e cl w)) q \<noteq> None"
    using engagement_pass_keeps_files by blast
qed

theorem remove_local_files_effect_witness:
  "path_exists ''a.mp4''
      (demo_world\<lparr>files := (files demo_world)
         (''a.mp4'' \<mapsto> ''video-bytes'', ''a.mp4.jpg'' \<mapsto> ''thumb'')\<rparr>)
   \<and> remove_local_files ''a.mp4''
        (demo_world\<lparr>files := (files demo_world)
           (''a.mp4'' \<mapsto> ''video-bytes'', ''a.mp4.jpg'' \<mapsto> ''thumb'')\<rparr>)
      = (Inr (), demo_world)
   \<and> remove_local_files ''a.mp4''
        (demo_world\<lparr>files := (files demo_world)(''a.mp4'' \<mapsto> ''video-bytes'')\<rparr>)
      = (Inr (), demo_world)
   \<and> publish_and_engage demo_env demo_client ''a.mp4'' ''hello''
        (demo_world\<lparr>files := (files demo_world)(''a.mp4'' \<mapsto> ''video-bytes'')\<rparr>)
      = engagement_pass demo_env demo_client
          (demo_world\<lparr>stdout := [UploadedPost ''hello'', UploadedStory],
             calls := [VideoUpload ''a.mp4'' ''hello'', VideoUploadToStory ''a.mp4'']\<rparr>)
   \<and> files (snd (engagement_pass demo_env demo_client demo_world)) ''media_schedule.csv''
      \<noteq> None"
proof -
  let ?fv = "(files demo_world)(''a.mp4'' \<mapsto> ''video-bytes'')"
  let ?fj = "(files demo_world)(''a.mp4'' \<mapsto> ''video-bytes'', ''a.mp4.jpg'' \<mapsto> ''thumb'')"
  let ?wv = "demo_world\<lparr>files := ?fv\<rparr>"
  let ?wj = "demo_world\<lparr>files := ?fj\<rparr>"
  let ?w1 = "demo_world\<lparr>files := ?fj, stdout := [UploadedPost ''hello'', UploadedStory],
      calls := [VideoUpload ''a.mp4'' ''hello'', VideoUploadToStory ''a.mp4'']\<rparr>"
  have fd: "files demo_world ''a.mp4'' = None" "files demo_world ''a.mp4.jpg'' = None"
    "files demo_world ''media_schedule.csv'' \<noteq> None"
    by (simp_all add: demo_world_def)
  have rest0: "?fj(''a.mp4'' := None, ''a.mp4.jpg'' := None) = files demo_world"
    "?fv(''a.mp4'' := None) = files demo_world"
    "(files demo_world)(''a.mp4'' := None, ''a.mp4.jpg'' := None) = files demo_world"
    "(files demo_world)(''a.mp4'' := None) = files demo_world"
    "(files demo_world)(''a.mp4.jpg'' := None) = files demo_world"
    using fd by (auto simp: fun_eq_iff)
  have pj: "path_exists ''a.mp4'' ?wj" "path_exists (''a.mp4'' @ ''.jpg'') ?wj"
    by (simp_all add: path_exists_def)
  have pv: "path_exists ''a.mp4'' ?wv" "\<not> path_exists (''a.mp4'' @ ''.jpg'') ?wv"
    using fd by (simp_all add: path_exists_def)
  have c1: "remove_local_files ''a.mp4'' ?wj = (Inr (), demo_world)"
    using remove_local_files_effect [of "''a.mp4''" ?wj] pj by (simp add: rest0)
  have c2: "remove_local_files ''a.mp4'' ?wv = (Inr (), demo_world)"
    using remove_local_files_effect [of "''a.mp4''" ?wv] pv by (simp add: rest0)
  have up: "upload_video_and_story demo_env demo_client ''a.mp4'' ''hello'' ?wv = (Inr (), ?w1)"
    by (simp add: upload_video_and_story_def upload_request_def print_def Let_def
        demo_env_def demo_world_def)
  have p1: "path_exists ''a.mp4'' ?w1" "path_exists (''a.mp4'' @ ''.jpg'') ?w1"
    by (simp_all add: path_exists_def)
  have r1: "remove_local_files ''a.mp4'' ?w1
      = (Inr (), demo_world\<lparr>stdout := [UploadedPost ''hello'', UploadedStory],
           calls := [VideoUpload ''a.mp4'' ''hello'', VideoUploadToStory ''a.mp4'']\<rparr>)"
    using remove_local_files_effect [of "''a.mp4''" ?w1] p1 by (simp add: rest0)
  have c3: "publish_and_engage demo_env demo_client ''a.mp4'' ''hello'' ?wv
      = engagement_pass demo_env demo_client (snd (remove_local_files ''a.mp4'' ?w1))"
    using remove_local_files_effect [of "''a.mp4''" _ demo_env demo_client "''hello''"]
      up p1(1) by blast
  have c4: "files (snd (engagement_pass demo_env demo_client demo_world))
      ''media_schedule.csv'' \<noteq> None"
    using remove_local_files_effect [of _ demo_world demo_env demo_client] fd(3) by blast
  from pj(1) c1 c2 c3 c4 show ?thesis by (simp add: r1)
qed

section \<open>Asset fetcher: what is asked of the storage service\<close>













end
